theory Spec2Isabelle
  imports Main "HOL-Library.Word" "HOL-Library.Sublist"
begin

section \<open>The program\<close>

text \<open>
  The repository holds two versions of one server of six tools. \<open>src/index.ts\<close>
  registers its tools with \<open>server.tool\<close> and returns every failure as a result that
  carries the error flag. The other source file registers them with
  \<open>server.registerTool\<close>, repeats every text result in \<open>structuredContent\<close>, throws
  its failures, takes the image credential from the configuration as well, and holds the
  table of weather codes. What is modelled from the first file carries the suffix
  \<open>_index\<close>, what is modelled from the second the suffix \<open>_part0\<close>.
\<close>

section \<open>Strings and values of the host language\<close>

text \<open>
  A JavaScript string is a sequence of UTF-16 code units. ASCII text is written with
  \<open>ascii\<close>; Korean text and emoji of the source are written as their code units.
  Concatenation and template literals are list append.
\<close>

type_synonym jsstring = "16 word list"

definition ascii :: "string \<Rightarrow> jsstring" where
  "ascii s = map of_char s"

text \<open>
  Words of the source that recur below, as code units:
  \<^item> \<open>[0xACB0, 0xACFC]\<close>: gyeolgwa, "result"
  \<^item> \<open>[0xC8FC, 0xC18C]\<close>: juso, "address"
  \<^item> \<open>[0xC704, 0xB3C4]\<close>: wido, "latitude"
  \<^item> \<open>[0xACBD, 0xB3C4]\<close>: gyeongdo, "longitude"
  \<^item> \<open>[0xAD6D, 0xAC00]\<close>: gukga, "country"
  \<^item> \<open>[0xCF54, 0xB4DC]\<close>: kodeu, "code"
  \<^item> \<open>[0xC911, 0xC694, 0xB3C4]\<close>: jungyodo, "importance"
  \<^item> \<open>[0xB3C4, 0xC2DC]\<close>: dosi, "city"
  \<^item> \<open>[0xC6B0, 0xD3B8, 0xBC88, 0xD638]\<close>: upyeonbeonho, "postal code"
  \<^item> \<open>[0xAC80, 0xC0C9, 0xC5B4]\<close>: geomsaegeo, "search term"
  \<^item> \<open>[0xC624, 0xB958]\<close>: oryu, "error"
  \<^item> \<open>[0xB0A0, 0xC528]\<close>: nalssi, "weather"
  \<^item> \<open>[0xC628, 0xB3C4]\<close>: ondo, "temperature"
  \<^item> \<open>[0xD48D, 0xC18D]\<close>: pungsok, "wind speed"
  \<^item> \<open>[0xD48D, 0xD5A5]\<close>: punghyang, "wind direction"
  \<^item> \<open>[0xC2DC, 0xAC04]\<close>: sigan, "time"
  \<^item> \<open>[0xC608, 0xBCF4]\<close>: yebo, "forecast"
  \<^item> \<open>[0xC77C]\<close>: il, "day"
  \<^item> \<open>[0xD544, 0xD130]\<close>: pilteo, "filter"
  \<^item> \<open>[0xD604, 0xC7AC]\<close>: hyeonjae, "now, current"
  \<^item> \<open>[0xD83D, 0xDC4B]\<close>: waving hand
  \<^item> \<open>[0xD83D, 0xDCCD]\<close>: round pushpin
  \<^item> \<open>[0xD83D, 0xDCC5]\<close>: calendar
  \<^item> \<open>[0xB0]\<close>: degree sign
  \<^item> \<open>[0x2501]\<close>: heavy horizontal line
\<close>

text \<open>Decimal rendering of an integer, as \<open>String(i)\<close> gives for an index or a count.\<close>

fun nat_str :: "nat \<Rightarrow> jsstring" where
  "nat_str n = (if n < 10 then [of_nat (48 + n)]
                else nat_str (n div 10) @ [of_nat (48 + n mod 10)])"

declare nat_str.simps [simp del]

definition int_str :: "int \<Rightarrow> jsstring" where
  "int_str k = (if k < 0 then ascii ''-'' @ nat_str (nat (- k)) else nat_str (nat k))"

text \<open>\<open>Array.prototype.join\<close> on an array of strings.\<close>

fun join :: "jsstring \<Rightarrow> jsstring list \<Rightarrow> jsstring" where
  "join sep [] = []"
| "join sep [x] = x"
| "join sep (x # y # ys) = x @ sep @ join sep (y # ys)"

text \<open>
  A value read from a parsed JSON body, or \<open>undefined\<close> for a property that is not there.
  Numbers are IEEE doubles in the source; their type \<open>'n\<close> and every operation on it are
  parameters of the model (see \<open>host\<close>).
\<close>

datatype 'n json =
    JUndefined
  | JNull
  | JBool bool
  | JNum 'n
  | JStr jsstring
  | JArr "'n json list"
  | JObj "(jsstring \<times> 'n json) list"

text \<open>What a \<open>throw\<close> carries: an \<open>Error\<close> with its message, or some other value.\<close>

datatype thrown = Error jsstring | NotAnError

section \<open>The invocation envelope\<close>

datatype content_block =
    Text jsstring
  | Image jsstring jsstring

text \<open>
  \<open>isError\<close> is \<open>False\<close> where the source leaves the flag out; \<open>structuredContent\<close>
  is \<open>None\<close> where the source returns no structured mirror.
\<close>

record invocation_result =
  content :: "content_block list"
  structuredContent :: "content_block list option"
  isError :: bool

definition text_result :: "jsstring \<Rightarrow> invocation_result" where
  "text_result t = \<lparr>content = [Text t], structuredContent = None, isError = False\<rparr>"

definition error_result :: "jsstring \<Rightarrow> invocation_result" where
  "error_result t = \<lparr>content = [Text t], structuredContent = None, isError = True\<rparr>"

definition mirrored_result :: "jsstring \<Rightarrow> invocation_result" where
  "mirrored_result t =
     \<lparr>content = [Text t], structuredContent = Some [Text t], isError = False\<rparr>"

definition image_result :: "jsstring \<Rightarrow> invocation_result" where
  "image_result d =
     \<lparr>content = [Image d (ascii ''image/png'')], structuredContent = None, isError = False\<rparr>"

section \<open>Outbound calls and the host\<close>

record http_request =
  url_base :: jsstring
  url_params :: "(jsstring \<times> jsstring) list"
  headers :: "(jsstring \<times> jsstring) list"

record inference_request =
  access_token :: "jsstring option"
  provider :: jsstring
  model :: jsstring
  inputs :: jsstring
  num_inference_steps :: nat

datatype outbound = Http http_request | Inference inference_request

text \<open>
  The response of \<open>fetch\<close>: \<open>json_body\<close> is what \<open>response.json()\<close> resolves to,
  or what it throws on a body that is not JSON.
\<close>

record 'n response =
  ok :: bool
  status :: nat
  statusText :: jsstring
  json_body :: "thrown + 'n json"

text \<open>
  The facilities of the runtime and of the libraries that the handlers call. Nothing is
  assumed about them: every theorem holds for every host.
  \<^item> \<open>num_str\<close>: a number in a template literal or under \<open>toString()\<close>;
  \<^item> \<open>num_add\<close>, \<open>num_sub\<close>, \<open>num_mul\<close>, \<open>num_div\<close>: the operators \<open>+ - * /\<close> on numbers;
  \<^item> \<open>num_is_zero\<close>: \<open>x === 0\<close>; \<open>num_truthy\<close>: a number as a condition;
  \<^item> \<open>format_time\<close>: \<open>new Intl.DateTimeFormat('ko-KR', {timeZone, ...}).format(new Date())\<close>,
    \<open>None\<close> when the facility rejects the zone by throwing;
  \<^item> \<open>fetch\<close>: the HTTP client; \<open>textToImage\<close>: the inference client;
    \<open>base64\<close>: \<open>arrayBuffer()\<close> of the image blob, then its base64 text;
  \<^item> \<open>env_HF_TOKEN\<close>: \<open>process.env.HF_TOKEN\<close>; \<open>config_hfToken\<close>: \<open>config?.hfToken\<close>;
  \<^item> \<open>obj_str\<close>: the string of an array or an object (the conversion can throw);
  \<^item> \<open>parseFloat\<close>: the built-in of this name on a string; \<open>toFixed4\<close>: \<open>toFixed(4)\<close>;
    \<open>toUpperCase\<close>, \<open>toLowerCase\<close>: the string methods;
  \<^item> \<open>type_error\<close>: the message of the TypeError raised at the member of that name;
  \<^item> \<open>gt_zero\<close>: \<open>v > 0\<close> for a value that is not an array or an object;
  \<^item> \<open>date_label\<close>: \<open>new Date(v).toLocaleDateString('ko-KR', {month: 'long', day: 'numeric',
    weekday: 'short'})\<close> and \<open>time_label\<close>: \<open>new Date(v).toLocaleString('ko-KR',
    {month: 'short', day: 'numeric', hour: '2-digit', minute: '2-digit'})\<close>, for a value
    that is not an array or an object;
  \<^item> \<open>count_below\<close>: for a value \<open>v\<close> and an integer \<open>m\<close>, how many of \<open>i = 0, 1, 2, ...\<close>
    satisfy \<open>i < Math.min(v, m)\<close>;
  \<^item> \<open>describe_other\<close>: \<open>getWeatherDescription\<close> applied to a string, an array or an object.
\<close>

record ('n, 'b) host =
  num_str :: "'n \<Rightarrow> jsstring"
  num_add :: "'n \<Rightarrow> 'n \<Rightarrow> 'n"
  num_sub :: "'n \<Rightarrow> 'n \<Rightarrow> 'n"
  num_mul :: "'n \<Rightarrow> 'n \<Rightarrow> 'n"
  num_div :: "'n \<Rightarrow> 'n \<Rightarrow> 'n"
  num_is_zero :: "'n \<Rightarrow> bool"
  num_truthy :: "'n \<Rightarrow> bool"
  format_time :: "jsstring \<Rightarrow> jsstring option"
  fetch :: "http_request \<Rightarrow> thrown + 'n response"
  textToImage :: "inference_request \<Rightarrow> thrown + 'b"
  base64 :: "'b \<Rightarrow> thrown + jsstring"
  env_HF_TOKEN :: "jsstring option"
  config_hfToken :: "jsstring option"
  obj_str :: "'n json \<Rightarrow> thrown + jsstring"
  parseFloat :: "jsstring \<Rightarrow> 'n"
  toFixed4 :: "'n \<Rightarrow> jsstring"
  toUpperCase :: "jsstring \<Rightarrow> jsstring"
  toLowerCase :: "jsstring \<Rightarrow> jsstring"
  type_error :: "jsstring \<Rightarrow> jsstring"
  gt_zero :: "'n json \<Rightarrow> bool"
  date_label :: "'n json \<Rightarrow> jsstring"
  time_label :: "'n json \<Rightarrow> jsstring"
  count_below :: "'n json \<Rightarrow> nat \<Rightarrow> nat"
  describe_other :: "'n json \<Rightarrow> thrown + jsstring"

section \<open>greet\<close>

text \<open>The handler of both files computes the same greeting.\<close>

definition greeting :: "jsstring \<Rightarrow> jsstring \<Rightarrow> jsstring" where
  "greeting name language =
     (if language = ascii ''ko''
      then [0xC548, 0xB155, 0xD558, 0xC138, 0xC694] @ ascii '', '' @ name @ [0xB2D8, 0x21]
      else ascii ''Hey there, '' @ name @ ascii ''! '' @ [0xD83D, 0xDC4B]
           @ ascii '' Nice to meet you!'')"

definition greet_index :: "jsstring \<Rightarrow> jsstring \<Rightarrow> invocation_result" where
  "greet_index name language = text_result (greeting name language)"

definition greet_part0 :: "jsstring \<Rightarrow> jsstring \<Rightarrow> invocation_result" where
  "greet_part0 name language = mirrored_result (greeting name language)"

text \<open>
  The input schema of \<open>greet\<close>: \<open>language\<close> is
  \<open>z.enum(['ko', 'en']).optional().default('en')\<close>, so an omitted language reaches the
  handler as \<open>'en'\<close> and a string outside the enumeration does not reach it.
\<close>

datatype validation_error = Invalid jsstring

definition greet_schema :: "jsstring \<Rightarrow> jsstring option \<Rightarrow> validation_error + jsstring \<times> jsstring" where
  "greet_schema name language =
     (case language of
        None \<Rightarrow> Inr (name, ascii ''en'')
      | Some l \<Rightarrow> if l \<in> set [ascii ''ko'', ascii ''en''] then Inr (name, l)
                  else Inl (Invalid (ascii ''language'')))"

definition greet_tool_index ::
  "jsstring \<Rightarrow> jsstring option \<Rightarrow> validation_error + invocation_result" where
  "greet_tool_index name language =
     (case greet_schema name language of
        Inl e \<Rightarrow> Inl e
      | Inr (n, l) \<Rightarrow> Inr (greet_index n l))"

definition greet_tool_part0 ::
  "jsstring \<Rightarrow> jsstring option \<Rightarrow> validation_error + invocation_result" where
  "greet_tool_part0 name language =
     (case greet_schema name language of
        Inl e \<Rightarrow> Inl e
      | Inr (n, l) \<Rightarrow> Inr (greet_part0 n l))"

section \<open>calculator\<close>

definition calc_text :: "('n, 'b) host \<Rightarrow> 'n \<Rightarrow> jsstring \<Rightarrow> 'n \<Rightarrow> 'n \<Rightarrow> jsstring" where
  "calc_text h num1 operator num2 result =
     num_str h num1 @ ascii '' '' @ operator @ ascii '' '' @ num_str h num2
       @ ascii '' = '' @ num_str h result"

text \<open>\<open>src/index.ts\<close>: the two failures are returned as error-flagged results.\<close>

definition calculator_index ::
  "('n, 'b) host \<Rightarrow> 'n \<Rightarrow> 'n \<Rightarrow> jsstring \<Rightarrow> invocation_result" where
  "calculator_index h num1 num2 operator =
     (if operator = ascii ''+''
        then text_result (calc_text h num1 operator num2 (num_add h num1 num2))
      else if operator = ascii ''-''
        then text_result (calc_text h num1 operator num2 (num_sub h num1 num2))
      else if operator = ascii ''*''
        then text_result (calc_text h num1 operator num2 (num_mul h num1 num2))
      else if operator = ascii ''/''
        then (if num_is_zero h num2
              then error_result ([0xC624, 0xB958] @ ascii '': 0'' @ [0xC73C, 0xB85C, 0x20,
                     0xB098, 0xB20C, 0x20, 0xC218, 0x20, 0xC5C6, 0xC2B5, 0xB2C8, 0xB2E4, 0x2E])
              else text_result (calc_text h num1 operator num2 (num_div h num1 num2)))
      else error_result ([0xC624, 0xB958] @ ascii '': '' @ [0xC9C0, 0xC6D0, 0xD558, 0xC9C0, 0x20,
             0xC54A, 0xB294, 0x20, 0xC5F0, 0xC0B0, 0xC790, 0xC785, 0xB2C8, 0xB2E4, 0x2E]))"

text \<open>The other file: the two failures are thrown.\<close>

definition calculator_part0 ::
  "('n, 'b) host \<Rightarrow> 'n \<Rightarrow> 'n \<Rightarrow> jsstring \<Rightarrow> thrown + invocation_result" where
  "calculator_part0 h num1 num2 operator =
     (if operator = ascii ''+''
        then Inr (mirrored_result (calc_text h num1 operator num2 (num_add h num1 num2)))
      else if operator = ascii ''-''
        then Inr (mirrored_result (calc_text h num1 operator num2 (num_sub h num1 num2)))
      else if operator = ascii ''*''
        then Inr (mirrored_result (calc_text h num1 operator num2 (num_mul h num1 num2)))
      else if operator = ascii ''/''
        then (if num_is_zero h num2
              then Inl (Error (ascii ''0'' @ [0xC73C, 0xB85C, 0x20, 0xB098, 0xB20C, 0x20, 0xC218,
                     0x20, 0xC5C6, 0xC2B5, 0xB2C8, 0xB2E4, 0x2E]))
              else Inr (mirrored_result (calc_text h num1 operator num2 (num_div h num1 num2))))
      else Inl (Error ([0xC9C0, 0xC6D0, 0xD558, 0xC9C0, 0x20, 0xC54A, 0xB294, 0x20, 0xC5F0,
             0xC0B0, 0xC790, 0xC785, 0xB2C8, 0xB2E4, 0x2E])))"


section \<open>getTime\<close>

definition time_text :: "jsstring \<Rightarrow> jsstring \<Rightarrow> jsstring" where
  "time_text timezone formattedTime =
     ascii ''Timezone: '' @ timezone @ [0xA, 0xD604, 0xC7AC, 0x20, 0xC2DC, 0xAC04] @ ascii '': ''
       @ formattedTime"

definition invalid_timezone :: "jsstring \<Rightarrow> jsstring" where
  "invalid_timezone timezone =
     [0xC720, 0xD6A8, 0xD558, 0xC9C0, 0x20, 0xC54A, 0xC740] @ ascii '' timezone''
       @ [0xC785, 0xB2C8, 0xB2E4] @ ascii '': '' @ timezone"

definition getTime_index :: "('n, 'b) host \<Rightarrow> jsstring \<Rightarrow> invocation_result" where
  "getTime_index h timezone =
     (case format_time h timezone of
        Some formattedTime \<Rightarrow> text_result (time_text timezone formattedTime)
      | None \<Rightarrow> error_result (invalid_timezone timezone))"

definition getTime_part0 :: "('n, 'b) host \<Rightarrow> jsstring \<Rightarrow> thrown + invocation_result" where
  "getTime_part0 h timezone =
     (case format_time h timezone of
        Some formattedTime \<Rightarrow> Inr (mirrored_result (time_text timezone formattedTime))
      | None \<Rightarrow> Inl (Error (invalid_timezone timezone @ ascii ''. IANA Timezone ''
                  @ [0xD615, 0xC2DD, 0xC744, 0x20, 0xC0AC, 0xC6A9, 0xD574, 0xC8FC, 0xC138, 0xC694]
                  @ ascii '' ('' @ [0xC608] @ ascii '': Asia/Seoul, America/New_York).'')))"

section \<open>The weather-code table\<close>

text \<open>
  The object literal \<open>weatherCodes\<close>, with its numeric keys as written. A property of an
  object is found under the string of its key, so the lookup \<open>weatherCodes[code]\<close> goes
  through \<open>num_str\<close>; every description is a non-empty string, so \<open>||\<close> takes the
  fallback exactly when the key is absent.
\<close>

definition weatherCodes :: "(int \<times> jsstring) list" where
  "weatherCodes =
  [(0, [0x2600, 0xFE0F, 0x20, 0xB9D1, 0xC74C]),
   (1, [0xD83C, 0xDF24, 0xFE0F, 0x20, 0xB300, 0xCCB4, 0xB85C, 0x20, 0xB9D1, 0xC74C]),
   (2, [0x26C5, 0x20, 0xBD80, 0xBD84, 0xC801, 0xC73C, 0xB85C, 0x20, 0xD750, 0xB9BC]),
   (3, [0x2601, 0xFE0F, 0x20, 0xD750, 0xB9BC]),
   (45, [0xD83C, 0xDF2B, 0xFE0F, 0x20, 0xC548, 0xAC1C]),
   (48, [0xD83C, 0xDF2B, 0xFE0F, 0x20, 0xC11C, 0xB9AC, 0x20, 0xC548, 0xAC1C]),
   (51, [0xD83C, 0xDF26, 0xFE0F, 0x20, 0xC57D, 0xD55C, 0x20, 0xC774, 0xC2AC, 0xBE44]),
   (53, [0xD83C, 0xDF26, 0xFE0F, 0x20, 0xBCF4, 0xD1B5, 0x20, 0xC774, 0xC2AC, 0xBE44]),
   (55, [0xD83C, 0xDF26, 0xFE0F, 0x20, 0xAC15, 0xD55C, 0x20, 0xC774, 0xC2AC, 0xBE44]),
   (56, [0xD83C, 0xDF28, 0xFE0F, 0x20, 0xC57D, 0xD55C, 0x20, 0xC9C4, 0xB208, 0xAE68, 0xBE44]),
   (57, [0xD83C, 0xDF28, 0xFE0F, 0x20, 0xAC15, 0xD55C, 0x20, 0xC9C4, 0xB208, 0xAE68, 0xBE44]),
   (61, [0xD83C, 0xDF27, 0xFE0F, 0x20, 0xC57D, 0xD55C, 0x20, 0xBE44]),
   (63, [0xD83C, 0xDF27, 0xFE0F, 0x20, 0xBCF4, 0xD1B5, 0x20, 0xBE44]),
   (65, [0xD83C, 0xDF27, 0xFE0F, 0x20, 0xAC15, 0xD55C, 0x20, 0xBE44]),
   (66, [0xD83C, 0xDF28, 0xFE0F, 0x20, 0xC57D, 0xD55C, 0x20, 0xC9C4, 0xB208, 0xAE68, 0xBE44]),
   (67, [0xD83C, 0xDF28, 0xFE0F, 0x20, 0xAC15, 0xD55C, 0x20, 0xC9C4, 0xB208, 0xAE68, 0xBE44]),
   (71, [0x2744, 0xFE0F, 0x20, 0xC57D, 0xD55C, 0x20, 0xB208]),
   (73, [0x2744, 0xFE0F, 0x20, 0xBCF4, 0xD1B5, 0x20, 0xB208]),
   (75, [0x2744, 0xFE0F, 0x20, 0xAC15, 0xD55C, 0x20, 0xB208]),
   (77, [0x2744, 0xFE0F, 0x20, 0xB208, 0xC54C, 0xAC31, 0xC774]),
   (80, [0xD83C, 0xDF26, 0xFE0F, 0x20, 0xC57D, 0xD55C, 0x20, 0xC18C, 0xB098, 0xAE30]),
   (81, [0xD83C, 0xDF26, 0xFE0F, 0x20, 0xBCF4, 0xD1B5, 0x20, 0xC18C, 0xB098, 0xAE30]),
   (82, [0xD83C, 0xDF26, 0xFE0F, 0x20, 0xAC15, 0xD55C, 0x20, 0xC18C, 0xB098, 0xAE30]),
   (85, [0xD83C, 0xDF28, 0xFE0F, 0x20, 0xC57D, 0xD55C, 0x20, 0xB208, 0x20, 0xC18C, 0xB098, 0xAE30]),
   (86, [0xD83C, 0xDF28, 0xFE0F, 0x20, 0xAC15, 0xD55C, 0x20, 0xB208, 0x20, 0xC18C, 0xB098, 0xAE30]),
   (95, [0x26C8, 0xFE0F, 0x20, 0xCC9C, 0xB465, 0xBC88, 0xAC1C]),
   (96, [0x26C8, 0xFE0F, 0x20, 0xC6B0, 0xBC15, 0xACFC, 0x20, 0xD568, 0xAED8, 0x20, 0xCC9C, 0xB465,
         0xBC88, 0xAC1C]),
   (99, [0x26C8, 0xFE0F, 0x20, 0xAC15, 0xD55C, 0x20, 0xC6B0, 0xBC15, 0xACFC, 0x20, 0xD568, 0xAED8,
         0x20, 0xCC9C, 0xB465, 0xBC88, 0xAC1C])]"

definition weather_fallback :: "jsstring \<Rightarrow> jsstring" where
  "weather_fallback key = [0xB0A0, 0xC528, 0x20, 0xCF54, 0xB4DC] @ ascii '': '' @ key"

text \<open>\<open>weatherCodes[key] || fallback\<close> for a key that is already a string.\<close>

definition weather_lookup :: "jsstring \<Rightarrow> jsstring" where
  "weather_lookup key =
     (case map_of (map (\<lambda>(k, d). (int_str k, d)) weatherCodes) key of
        Some d \<Rightarrow> d
      | None \<Rightarrow> weather_fallback key)"

definition getWeatherDescription :: "('n, 'b) host \<Rightarrow> 'n \<Rightarrow> jsstring" where
  "getWeatherDescription h code = weather_lookup (num_str h code)"

section \<open>Reading values\<close>

text \<open>
  A failure inside a \<open>try\<close> block ends the block: \<open>and_then\<close> runs the next step only
  when the step before it has not thrown.
\<close>

definition and_then :: "thrown + 'a \<Rightarrow> ('a \<Rightarrow> thrown + 'c) \<Rightarrow> thrown + 'c" where
  "and_then m f = (case m of Inl e \<Rightarrow> Inl e | Inr x \<Rightarrow> f x)"

text \<open>\<open>error instanceof Error ? error.message : unknown\<close>\<close>

definition error_message :: "jsstring \<Rightarrow> thrown \<Rightarrow> jsstring" where
  "error_message unknown e = (case e of Error m \<Rightarrow> m | NotAnError \<Rightarrow> unknown)"

text \<open>A value as a condition.\<close>

fun truthy :: "('n, 'b) host \<Rightarrow> 'n json \<Rightarrow> bool" where
  "truthy h JUndefined = False"
| "truthy h JNull = False"
| "truthy h (JBool b) = b"
| "truthy h (JNum n) = num_truthy h n"
| "truthy h (JStr s) = (s \<noteq> [])"
| "truthy h (JArr xs) = True"
| "truthy h (JObj kvs) = True"

fun nullish :: "'n json \<Rightarrow> bool" where
  "nullish JUndefined = True"
| "nullish JNull = True"
| "nullish v = False"

fun is_undefined :: "'n json \<Rightarrow> bool" where
  "is_undefined JUndefined = True"
| "is_undefined v = False"

text \<open>\<open>a || b\<close>\<close>

definition js_or :: "('n, 'b) host \<Rightarrow> 'n json \<Rightarrow> 'n json \<Rightarrow> 'n json" where
  "js_or h a b = (if truthy h a then a else b)"

text \<open>
  \<open>v.key\<close> for the data fields the handlers read, none of which is \<open>length\<close> or a
  name defined on a prototype: reading a field of \<open>null\<close> or \<open>undefined\<close> throws a
  TypeError, an object gives its property or \<open>undefined\<close>, every other value
  \<open>undefined\<close>. Where the list of an object names a key twice, its first entry is the
  property.
\<close>

fun get_prop :: "('n, 'b) host \<Rightarrow> 'n json \<Rightarrow> jsstring \<Rightarrow> thrown + 'n json" where
  "get_prop h JUndefined key = Inl (Error (type_error h key))"
| "get_prop h JNull key = Inl (Error (type_error h key))"
| "get_prop h (JObj kvs) key = Inr (case map_of kvs key of Some v \<Rightarrow> v | None \<Rightarrow> JUndefined)"
| "get_prop h v key = Inr JUndefined"

text \<open>
  \<open>v[i]\<close> for a value that is not \<open>null\<close> or \<open>undefined\<close>: an element of an
  array, a code unit of a string, the property of an object under the decimal numeral
  of \<open>i\<close>; \<open>undefined\<close> out of range.
\<close>

fun js_index :: "'n json \<Rightarrow> nat \<Rightarrow> 'n json" where
  "js_index (JArr xs) i = (if i < length xs then xs ! i else JUndefined)"
| "js_index (JStr s) i = (if i < length s then JStr [s ! i] else JUndefined)"
| "js_index (JObj kvs) i = (case map_of kvs (nat_str i) of Some v \<Rightarrow> v | None \<Rightarrow> JUndefined)"
| "js_index v i = JUndefined"

text \<open>\<open>v?.[i]\<close>\<close>

definition opt_index :: "'n json \<Rightarrow> nat \<Rightarrow> 'n json" where
  "opt_index v i = (if nullish v then JUndefined else js_index v i)"

text \<open>A value in a template literal.\<close>

fun to_str :: "('n, 'b) host \<Rightarrow> 'n json \<Rightarrow> thrown + jsstring" where
  "to_str h JUndefined = Inr (ascii ''undefined'')"
| "to_str h JNull = Inr (ascii ''null'')"
| "to_str h (JBool b) = Inr (if b then ascii ''true'' else ascii ''false'')"
| "to_str h (JNum n) = Inr (num_str h n)"
| "to_str h (JStr s) = Inr s"
| "to_str h (JArr xs) = obj_str h (JArr xs)"
| "to_str h (JObj kvs) = obj_str h (JObj kvs)"

text \<open>
  An array or an object as operand of a comparison or as argument of \<open>new Date\<close>
  becomes its string first.
\<close>

fun to_primitive :: "('n, 'b) host \<Rightarrow> 'n json \<Rightarrow> thrown + 'n json" where
  "to_primitive h (JArr xs) = and_then (obj_str h (JArr xs)) (\<lambda>s. Inr (JStr s))"
| "to_primitive h (JObj kvs) = and_then (obj_str h (JObj kvs)) (\<lambda>s. Inr (JStr s))"
| "to_primitive h v = Inr v"

text \<open>\<open>parseFloat(v)\<close>: the argument becomes a string first.\<close>

definition js_parseFloat :: "('n, 'b) host \<Rightarrow> 'n json \<Rightarrow> thrown + 'n" where
  "js_parseFloat h v = and_then (to_str h v) (\<lambda>s. Inr (parseFloat h s))"

definition js_gt_zero :: "('n, 'b) host \<Rightarrow> 'n json \<Rightarrow> thrown + bool" where
  "js_gt_zero h v = and_then (to_primitive h v) (\<lambda>p. Inr (gt_zero h p))"

definition js_date_label :: "('n, 'b) host \<Rightarrow> 'n json \<Rightarrow> thrown + jsstring" where
  "js_date_label h v = and_then (to_primitive h v) (\<lambda>p. Inr (date_label h p))"

definition js_time_label :: "('n, 'b) host \<Rightarrow> 'n json \<Rightarrow> thrown + jsstring" where
  "js_time_label h v = and_then (to_primitive h v) (\<lambda>p. Inr (time_label h p))"

text \<open>
  \<open>array.map((x, index) => f(index, x))\<close> from index \<open>i\<close> on: the first callback that
  throws ends the map.
\<close>

fun map_from :: "(nat \<Rightarrow> 'a \<Rightarrow> thrown + 'c) \<Rightarrow> nat \<Rightarrow> 'a list \<Rightarrow> thrown + 'c list" where
  "map_from f i [] = Inr []"
| "map_from f i (x # xs) =
     and_then (f i x) (\<lambda>y. and_then (map_from f (Suc i) xs) (\<lambda>ys. Inr (y # ys)))"

section \<open>generate-image\<close>

definition missing_token_text :: jsstring where
  "missing_token_text = ascii ''HF_TOKEN '' @ [0xD658, 0xACBD, 0x20, 0xBCC0, 0xC218, 0xAC00,
    0x20, 0xC124, 0xC815, 0xB418, 0xC9C0, 0x20, 0xC54A, 0xC558, 0xC2B5, 0xB2C8, 0xB2E4, 0x2E]"

text \<open>
  \<open>src/index.ts\<close>: the token is read from the environment on every call and checked
  before the client is built.
\<close>

definition generate_image_index ::
  "('n, 'b) host \<Rightarrow> jsstring \<Rightarrow> invocation_result \<times> outbound list" where
  "generate_image_index h prompt =
     (case env_HF_TOKEN h of
        None \<Rightarrow> (error_result missing_token_text, [])
      | Some hfToken \<Rightarrow>
          if hfToken = [] then (error_result missing_token_text, [])
          else
            let req = \<lparr>access_token = Some hfToken, provider = ascii ''hf-inference'',
                       model = ascii ''black-forest-labs/FLUX.1-schnell'', inputs = prompt,
                       num_inference_steps = 5\<rparr>
            in (case and_then (textToImage h req) (base64 h) of
                  Inr base64Data \<Rightarrow> image_result base64Data
                | Inl e \<Rightarrow> error_result ([0xC774, 0xBBF8, 0xC9C0, 0x20, 0xC0DD,
                  0xC131, 0x20, 0xC624, 0xB958] @ ascii '': ''
                            @ error_message [0xC54C, 0x20, 0xC218, 0x20, 0xC5C6, 0xB294, 0x20,
                              0xC624, 0xB958] e),
                [Inference req]))"

text \<open>
  The other file: the client is built once, with \<open>config?.hfToken || process.env.HF_TOKEN\<close>,
  and the handler calls it without looking at the token.
\<close>

definition hf_credential :: "('n, 'b) host \<Rightarrow> jsstring option" where
  "hf_credential h =
     (case config_hfToken h of
        None \<Rightarrow> env_HF_TOKEN h
      | Some t \<Rightarrow> if t = [] then env_HF_TOKEN h else Some t)"

definition generate_image_part0 ::
  "('n, 'b) host \<Rightarrow> jsstring \<Rightarrow> (thrown + invocation_result) \<times> outbound list" where
  "generate_image_part0 h prompt =
     (let req = \<lparr>access_token = hf_credential h, provider = ascii ''auto'',
                 model = ascii ''black-forest-labs/FLUX.1-schnell'', inputs = prompt,
                 num_inference_steps = 5\<rparr>
      in (case and_then (textToImage h req) (base64 h) of
            Inr base64Data \<Rightarrow> Inr (image_result base64Data)
          | Inl e \<Rightarrow> Inl (Error ([0xC774, 0xBBF8, 0xC9C0, 0x20, 0xC0DD, 0xC131, 0x20,
            0xC624, 0xB958] @ ascii '': ''
                      @ error_message [0xC54C, 0x20, 0xC218, 0x20, 0xC5C6, 0xB294, 0x20, 0xC624,
                        0xB958, 0xAC00, 0x20, 0xBC1C, 0xC0DD, 0xD588, 0xC2B5, 0xB2C8, 0xB2E4,
                        0x2E] e
                      @ ascii ''. HF_TOKEN '' @ [0xD658, 0xACBD, 0x20, 0xBCC0, 0xC218, 0xAC00,
                        0x20, 0xC124, 0xC815, 0xB418, 0xC5B4, 0x20, 0xC788, 0xB294, 0xC9C0, 0x20,
                        0xD655, 0xC778, 0xD574, 0xC8FC, 0xC138, 0xC694, 0x2E])),
          [Inference req]))"

section \<open>geocode\<close>

text \<open>The request is the same in both files; \<open>limit = 1\<close> is the handler's own default.\<close>

definition geocode_request ::
  "('n, 'b) host \<Rightarrow> jsstring \<Rightarrow> nat option \<Rightarrow> jsstring option \<Rightarrow> http_request" where
  "geocode_request h address limit country =
     \<lparr>url_base = ascii ''https://nominatim.openstreetmap.org/search'',
      url_params =
        [(ascii ''q'', address),
         (ascii ''format'', ascii ''json''),
         (ascii ''limit'', nat_str (case limit of None \<Rightarrow> 1 | Some l \<Rightarrow> l)),
         (ascii ''addressdetails'', ascii ''1'')]
        @ (case country of
             None \<Rightarrow> []
           | Some c \<Rightarrow> if c = [] then [] else [(ascii ''countrycodes'', toLowerCase h c)]),
      headers =
        [(ascii ''User-Agent'', ascii ''MCP-Geocode-Tool/1.0''),
         (ascii ''Accept'', ascii ''application/json'')]\<rparr>"

subsection \<open>\<open>src/index.ts\<close>\<close>

definition geocode_none_index :: "jsstring \<Rightarrow> jsstring" where
  "geocode_none_index address = [0xC8FC, 0xC18C, 0x20, 0x22] @ address @ [0x22, 0xC5D0, 0x20,
    0xB300, 0xD55C, 0x20, 0xAC80, 0xC0C9, 0x20, 0xACB0, 0xACFC, 0xAC00, 0x20, 0xC5C6, 0xC2B5,
    0xB2C8, 0xB2E4, 0x2E]"

definition geocode_failed_index :: "thrown \<Rightarrow> invocation_result" where
  "geocode_failed_index e =
     error_result (ascii ''Geocoding '' @ [0xC624, 0xB958] @ ascii '': ''
       @ error_message [0xC54C, 0x20, 0xC218, 0x20, 0xC5C6, 0xB294, 0x20, 0xC624, 0xB958] e)"

definition geocode_block_index :: "('n, 'b) host \<Rightarrow> nat \<Rightarrow> 'n json \<Rightarrow> thrown + jsstring" where
  "geocode_block_index h index result =
     and_then (get_prop h result (ascii ''display_name'')) (\<lambda>display_name.
     and_then (to_str h display_name) (\<lambda>name_text.
     and_then (get_prop h result (ascii ''lat'')) (\<lambda>lat.
     and_then (to_str h lat) (\<lambda>lat_text.
     and_then (get_prop h result (ascii ''lon'')) (\<lambda>lon.
     and_then (to_str h lon) (\<lambda>lon_text.
       Inr ([0xACB0, 0xACFC, 0x20] @ nat_str (index + 1) @ ascii '':'' @ [0xA, 0xC8FC, 0xC18C]
         @ ascii '': '' @ name_text
            @ [0xA, 0xC704, 0xB3C4] @ ascii '': '' @ lat_text @ [0xA, 0xACBD, 0xB3C4]
              @ ascii '': '' @ lon_text)))))))"

definition geocode_index ::
  "('n, 'b) host \<Rightarrow> jsstring \<Rightarrow> nat option \<Rightarrow> jsstring option
     \<Rightarrow> invocation_result \<times> outbound list" where
  "geocode_index h address limit country =
     (let req = geocode_request h address limit country
      in (case fetch h req of
            Inl e \<Rightarrow> geocode_failed_index e
          | Inr response \<Rightarrow>
              if \<not> ok response
              then error_result (ascii ''API '' @ [0xC694, 0xCCAD, 0x20, 0xC2E4, 0xD328]
                @ ascii '': '' @ nat_str (status response))
              else
                (case and_then (json_body response) (\<lambda>data.
                   case data of
                     JArr results \<Rightarrow>
                       if results = [] then Inr (text_result (geocode_none_index address))
                       else and_then (map_from (geocode_block_index h) 0 results) (\<lambda>blocks.
                              Inr (text_result ([0xAC80, 0xC0C9, 0xC5B4] @ ascii '': ''
                                @ [0x22] @ address @ [0x22, 0xA, 0xA]
                                     @ join [0xA, 0xA] blocks)))
                   | _ \<Rightarrow> Inr (text_result (geocode_none_index address))) of
                   Inr r \<Rightarrow> r
                 | Inl e \<Rightarrow> geocode_failed_index e),
          [Http req]))"

subsection \<open>The other file\<close>

text \<open>\<open>country ? label + country + ')' : ''\<close>\<close>

definition country_note :: "jsstring \<Rightarrow> jsstring option \<Rightarrow> jsstring" where
  "country_note label country =
     (case country of
        None \<Rightarrow> []
      | Some c \<Rightarrow> if c = [] then [] else label @ c @ ascii '')'')"

definition geocode_none_part0 :: "jsstring \<Rightarrow> jsstring option \<Rightarrow> jsstring" where
  "geocode_none_part0 address country =
     [0xC8FC, 0xC18C, 0x20, 0x22] @ address @ [0x22] @ country_note (ascii '' ('' @ [0xAD6D,
       0xAC00] @ ascii '': '') country
       @ [0xC5D0, 0x20, 0xB300, 0xD55C, 0x20, 0xAC80, 0xC0C9, 0x20, 0xACB0, 0xACFC, 0xB97C,
         0x20, 0xCC3E, 0xC744, 0x20, 0xC218, 0x20, 0xC5C6, 0xC2B5, 0xB2C8, 0xB2E4, 0x2E]"

definition geocode_header_part0 :: "jsstring \<Rightarrow> jsstring option \<Rightarrow> jsstring" where
  "geocode_header_part0 address country =
     [0xAC80, 0xC0C9, 0xC5B4] @ ascii '': '' @ [0x22] @ address @ [0x22]
       @ country_note (ascii '' ('' @ [0xAD6D, 0xAC00, 0x20, 0xD544, 0xD130]
       @ ascii '': '') country @ [0xA, 0xA]"

text \<open>\<open>result.address?.country_code?.toUpperCase() || 'N/A'\<close>\<close>

definition geocode_country_code :: "('n, 'b) host \<Rightarrow> 'n json \<Rightarrow> thrown + jsstring" where
  "geocode_country_code h result =
     and_then (get_prop h result (ascii ''address'')) (\<lambda>address.
       if nullish address then Inr (ascii ''N/A'')
       else and_then (get_prop h address (ascii ''country_code'')) (\<lambda>country_code.
         case country_code of
           JUndefined \<Rightarrow> Inr (ascii ''N/A'')
         | JNull \<Rightarrow> Inr (ascii ''N/A'')
         | JStr s \<Rightarrow> Inr (if toUpperCase h s = [] then ascii ''N/A'' else toUpperCase h s)
         | _ \<Rightarrow> Inl (Error (type_error h (ascii ''toUpperCase'')))))"

text \<open>\<open>result.importance ? parseFloat(result.importance).toFixed(4) : 'N/A'\<close>\<close>

definition geocode_importance :: "('n, 'b) host \<Rightarrow> 'n json \<Rightarrow> thrown + jsstring" where
  "geocode_importance h result =
     and_then (get_prop h result (ascii ''importance'')) (\<lambda>importance.
       if truthy h importance
       then and_then (js_parseFloat h importance) (\<lambda>n. Inr (toFixed4 h n))
       else Inr (ascii ''N/A''))"

text \<open>The details pushed for a match whose \<open>address\<close> is truthy.\<close>

definition geocode_details :: "('n, 'b) host \<Rightarrow> 'n json \<Rightarrow> thrown + jsstring list" where
  "geocode_details h addr =
     and_then (get_prop h addr (ascii ''city'')) (\<lambda>city.
     and_then (get_prop h addr (ascii ''town'')) (\<lambda>town.
     and_then (get_prop h addr (ascii ''village'')) (\<lambda>village.
     and_then (if truthy h (js_or h (js_or h city town) village)
               then and_then (to_str h (js_or h (js_or h city town) village))
                      (\<lambda>t. Inr [[0xB3C4, 0xC2DC] @ ascii '': '' @ t])
               else Inr []) (\<lambda>d1.
     and_then (get_prop h addr (ascii ''state'')) (\<lambda>state.
     and_then (if truthy h state
               then and_then (to_str h state) (\<lambda>t. Inr [[0xC8FC, 0x2F, 0xB3C4]
                 @ ascii '': '' @ t])
               else Inr []) (\<lambda>d2.
     and_then (get_prop h addr (ascii ''postcode'')) (\<lambda>postcode.
     and_then (if truthy h postcode
               then and_then (to_str h postcode) (\<lambda>t. Inr [[0xC6B0, 0xD3B8, 0xBC88,
                 0xD638] @ ascii '': '' @ t])
               else Inr []) (\<lambda>d3.
       Inr (d1 @ d2 @ d3)))))))))"

definition geocode_block_part0 ::
  "('n, 'b) host \<Rightarrow> jsstring \<Rightarrow> nat \<Rightarrow> 'n json \<Rightarrow> thrown + jsstring" where
  "geocode_block_part0 h address index result =
     and_then (get_prop h result (ascii ''lat'')) (\<lambda>lat_field.
     and_then (js_parseFloat h lat_field) (\<lambda>lat.
     and_then (get_prop h result (ascii ''lon'')) (\<lambda>lon_field.
     and_then (js_parseFloat h lon_field) (\<lambda>lon.
     and_then (get_prop h result (ascii ''display_name'')) (\<lambda>display_name.
     and_then (geocode_importance h result) (\<lambda>importance.
     and_then (geocode_country_code h result) (\<lambda>countryCode.
     and_then (to_str h (js_or h display_name (JStr address))) (\<lambda>displayName.
     and_then (get_prop h result (ascii ''address'')) (\<lambda>addr.
     and_then (if truthy h addr then geocode_details h addr else Inr []) (\<lambda>details.
       Inr ([0xACB0, 0xACFC, 0x20] @ nat_str (index + 1) @ ascii '':'' @ [0xA, 0xC8FC, 0xC18C]
         @ ascii '': '' @ displayName
            @ [0xA, 0xC704, 0xB3C4] @ ascii '': '' @ num_str h lat @ [0xA, 0xACBD, 0xB3C4]
              @ ascii '': '' @ num_str h lon
            @ [0xA, 0xAD6D, 0xAC00, 0x20, 0xCF54, 0xB4DC] @ ascii '': '' @ countryCode @ [0xA,
              0xC911, 0xC694, 0xB3C4] @ ascii '': '' @ importance
            @ (if details = [] then [] else [0xA] @ join (ascii '', '') details))))))))))))"

definition geocode_part0 ::
  "('n, 'b) host \<Rightarrow> jsstring \<Rightarrow> nat option \<Rightarrow> jsstring option
     \<Rightarrow> (thrown + invocation_result) \<times> outbound list" where
  "geocode_part0 h address limit country =
     (let req = geocode_request h address limit country
      in (case
            and_then (fetch h req) (\<lambda>response.
              if \<not> ok response
              then Inl (Error (ascii ''API '' @ [0xC694, 0xCCAD, 0x20, 0xC2E4, 0xD328]
                @ ascii '': '' @ nat_str (status response) @ ascii '' ''
                          @ statusText response))
              else and_then (json_body response) (\<lambda>data.
                case data of
                  JArr results \<Rightarrow>
                    if results = []
                    then Inr (mirrored_result (geocode_none_part0 address country))
                    else and_then (map_from (geocode_block_part0 h address) 0 results) (\<lambda>blocks.
                           Inr (mirrored_result (geocode_header_part0 address country
                                  @ join [0xA, 0xA] blocks)))
                | _ \<Rightarrow> Inr (mirrored_result (geocode_none_part0 address country)))) of
            Inr r \<Rightarrow> Inr r
          | Inl e \<Rightarrow> Inl (Error (ascii ''Geocoding '' @ [0xC624, 0xB958] @ ascii '': ''
                       @ error_message [0xC54C, 0x20, 0xC218, 0x20, 0xC5C6, 0xB294, 0x20,
                         0xC624, 0xB958, 0xAC00, 0x20, 0xBC1C, 0xC0DD, 0xD588, 0xC2B5, 0xB2C8,
                         0xB2E4, 0x2E] e)),
          [Http req]))"

section \<open>get-weather\<close>

text \<open>
  \<open>getWeatherDescription\<close> is declared for a number. At run time the weather code is
  whatever the body holds: a missing, \<open>null\<close> or boolean code is looked up under its
  string like a number, and a string, array or object as code is left to the host.
\<close>

definition describe_code :: "('n, 'b) host \<Rightarrow> 'n json \<Rightarrow> thrown + jsstring" where
  "describe_code h code =
     (case code of
        JNum n \<Rightarrow> Inr (getWeatherDescription h n)
      | JStr s \<Rightarrow> describe_other h code
      | JArr xs \<Rightarrow> describe_other h code
      | JObj kvs \<Rightarrow> describe_other h code
      | _ \<Rightarrow> and_then (to_str h code) (\<lambda>key. Inr (weather_lookup key)))"

text \<open>
  \<open>for (let i = 0; i < n; i++) resultText += entry(i)\<close>, from \<open>i\<close> on; an entry
  that throws ends the loop.
\<close>

function for_loop ::
  "(nat \<Rightarrow> thrown + jsstring) \<Rightarrow> nat \<Rightarrow> nat \<Rightarrow> jsstring \<Rightarrow> thrown + jsstring" where
  "for_loop entry n i resultText =
     (if i < n
      then (case entry i of
              Inl e \<Rightarrow> Inl e
            | Inr s \<Rightarrow> for_loop entry n (Suc i) (resultText @ s))
      else Inr resultText)"
  by pat_completeness auto
termination
  by (relation "measure (\<lambda>(entry, n, i, resultText). n - i)") auto

declare for_loop.simps [simp del]

text \<open>
  How often a loop \<open>for (i = 0; i < Math.min(time.length, m); i++)\<close> runs, \<open>m\<close> being
  an integer: the length of an array or of a string is a count; a number or a boolean has
  no \<open>length\<close>, the minimum is \<open>NaN\<close> and the loop does not run; for an object the
  comparison with its \<open>length\<close> property, if it has one, is the host's.
\<close>

definition loop_count :: "('n, 'b) host \<Rightarrow> 'n json \<Rightarrow> nat \<Rightarrow> nat" where
  "loop_count h time m =
     (case time of
        JArr xs \<Rightarrow> min (length xs) m
      | JStr s \<Rightarrow> min (length s) m
      | JObj kvs \<Rightarrow> (case map_of kvs (ascii ''length'') of
                       None \<Rightarrow> 0
                     | Some v \<Rightarrow> count_below h v m)
      | _ \<Rightarrow> 0)"

definition rule_line :: jsstring where
  "rule_line = replicate 40 0x2501 @ [0xA]"

text \<open>A line that is written when a value is not \<open>undefined\<close>.\<close>

definition when_defined ::
  "('n, 'b) host \<Rightarrow> 'n json \<Rightarrow> jsstring \<Rightarrow> jsstring \<Rightarrow> thrown + jsstring" where
  "when_defined h v lead trail =
     (if is_undefined v then Inr []
      else and_then (to_str h v) (\<lambda>t. Inr (lead @ t @ trail)))"

subsection \<open>\<open>src/index.ts\<close>\<close>

definition weather_request_index ::
  "('n, 'b) host \<Rightarrow> 'n \<Rightarrow> 'n \<Rightarrow> nat option \<Rightarrow> http_request" where
  "weather_request_index h latitude longitude forecast_days =
     \<lparr>url_base = ascii ''https://api.open-meteo.com/v1/forecast'',
      url_params =
        [(ascii ''latitude'', num_str h latitude),
         (ascii ''longitude'', num_str h longitude),
         (ascii ''forecast_days'', nat_str (case forecast_days of None \<Rightarrow> 7 | Some d \<Rightarrow> d)),
         (ascii ''current_weather'', ascii ''true''),
         (ascii ''daily'',
          ascii ''temperature_2m_max,temperature_2m_min,precipitation_sum,weather_code'')],
      headers = []\<rparr>"

definition current_index :: "('n, 'b) host \<Rightarrow> 'n json \<Rightarrow> thrown + jsstring" where
  "current_index h data =
     and_then (get_prop h data (ascii ''current_weather'')) (\<lambda>current.
       if \<not> truthy h current then Inr []
       else
         and_then (get_prop h current (ascii ''temperature'')) (\<lambda>temperature.
         and_then (to_str h temperature) (\<lambda>temperature_text.
         and_then (get_prop h current (ascii ''wind_speed'')) (\<lambda>wind_speed.
         and_then (to_str h wind_speed) (\<lambda>wind_speed_text.
           Inr ([0xD83C, 0xDF24, 0xFE0F, 0x20, 0xD604, 0xC7AC, 0x20, 0xB0A0, 0xC528, 0xA]
             @ [0xC628, 0xB3C4] @ ascii '': '' @ temperature_text @ [0xB0, 0x43, 0xA]
                @ [0xD48D, 0xC18D] @ ascii '': '' @ wind_speed_text @ ascii '' km/h'' @ [0xA,
                  0xA]))))))"

definition daily_entry_index :: "('n, 'b) host \<Rightarrow> 'n json \<Rightarrow> nat \<Rightarrow> thrown + jsstring" where
  "daily_entry_index h daily i =
     and_then (get_prop h daily (ascii ''time'')) (\<lambda>time.
     and_then (get_prop h daily (ascii ''temperature_2m_max'')) (\<lambda>maxs.
     and_then (get_prop h daily (ascii ''temperature_2m_min'')) (\<lambda>mins.
     and_then (to_str h (js_index time i)) (\<lambda>date.
     and_then (to_str h (opt_index mins i)) (\<lambda>minTemp.
     and_then (to_str h (opt_index maxs i)) (\<lambda>maxTemp.
       Inr (date @ ascii '': '' @ minTemp @ [0xB0] @ ascii ''C ~ '' @ maxTemp @ [0xB0, 0x43,
         0xA])))))))"

definition daily_index :: "('n, 'b) host \<Rightarrow> nat \<Rightarrow> 'n json \<Rightarrow> thrown + jsstring" where
  "daily_index h forecast_days data =
     and_then (get_prop h data (ascii ''daily'')) (\<lambda>daily.
       if \<not> truthy h daily then Inr []
       else
         and_then (get_prop h daily (ascii ''time'')) (\<lambda>time.
           if \<not> truthy h time then Inr []
           else for_loop (daily_entry_index h daily) (loop_count h time forecast_days) 0
                  ([0xD83D, 0xDCC5, 0x20] @ nat_str forecast_days @ [0xC77C, 0x20, 0xC608,
                    0xBCF4, 0xA])))"

definition get_weather_index ::
  "('n, 'b) host \<Rightarrow> 'n \<Rightarrow> 'n \<Rightarrow> nat option \<Rightarrow> invocation_result \<times> outbound list" where
  "get_weather_index h latitude longitude forecast_days =
     (let req = weather_request_index h latitude longitude forecast_days;
          days = (case forecast_days of None \<Rightarrow> 7 | Some d \<Rightarrow> d)
      in (case
            and_then (fetch h req) (\<lambda>response.
              if \<not> ok response
              then Inr (error_result (ascii ''API '' @ [0xC694, 0xCCAD, 0x20, 0xC2E4, 0xD328]
                @ ascii '': '' @ nat_str (status response)))
              else
                and_then (json_body response) (\<lambda>data.
                and_then (current_index h data) (\<lambda>current_text.
                and_then (daily_index h days data) (\<lambda>daily_text.
                  Inr (text_result ([0xD83D, 0xDCCD, 0x20, 0xC704, 0xCE58] @ ascii '': ''
                    @ [0xC704, 0xB3C4, 0x20] @ num_str h latitude @ ascii '', '' @ [0xACBD,
                    0xB3C4, 0x20]
                         @ num_str h longitude @ [0xA, 0xA] @ current_text @ daily_text)))))) of
            Inr r \<Rightarrow> r
          | Inl e \<Rightarrow> error_result ([0xB0A0, 0xC528, 0x20, 0xC870, 0xD68C, 0x20,
            0xC624, 0xB958] @ ascii '': '' @ error_message [0xC54C, 0x20, 0xC218, 0x20, 0xC5C6,
            0xB294, 0x20, 0xC624, 0xB958] e),
          [Http req]))"

subsection \<open>The other file\<close>

definition weather_request_part0 ::
  "('n, 'b) host \<Rightarrow> 'n \<Rightarrow> 'n \<Rightarrow> nat option \<Rightarrow> jsstring option \<Rightarrow> http_request" where
  "weather_request_part0 h latitude longitude forecast_days timezone =
     \<lparr>url_base = ascii ''https://api.open-meteo.com/v1/forecast'',
      url_params =
        [(ascii ''latitude'', num_str h latitude),
         (ascii ''longitude'', num_str h longitude),
         (ascii ''forecast_days'', nat_str (case forecast_days of None \<Rightarrow> 7 | Some d \<Rightarrow> d)),
         (ascii ''current_weather'', ascii ''true''),
         (ascii ''hourly'', ascii ''temperature_2m,relative_humidity_2m,precipitation,''
            @ ascii ''wind_speed_10m,wind_direction_10m,weather_code''),
         (ascii ''daily'', ascii ''temperature_2m_max,temperature_2m_min,precipitation_sum,''
            @ ascii ''weather_code,wind_speed_10m_max'')]
        @ (case timezone of
             None \<Rightarrow> []
           | Some tz \<Rightarrow> if tz = [] then [] else [(ascii ''timezone'', tz)]),
      headers = [(ascii ''Accept'', ascii ''application/json'')]\<rparr>"

definition header_part0 :: "('n, 'b) host \<Rightarrow> 'n \<Rightarrow> 'n \<Rightarrow> 'n json \<Rightarrow> thrown + jsstring" where
  "header_part0 h latitude longitude data =
     and_then (get_prop h data (ascii ''timezone'')) (\<lambda>timezone.
     and_then (if truthy h timezone
               then and_then (to_str h timezone) (\<lambda>t. Inr ([0xD83C, 0xDF0D, 0x20,
                 0xC2DC, 0xAC04, 0xB300] @ ascii '': '' @ t @ [0xA]))
               else Inr []) (\<lambda>timezone_line.
     and_then (get_prop h data (ascii ''elevation'')) (\<lambda>elevation.
     and_then (when_defined h elevation ([0x26F0, 0xFE0F] @ ascii ''  '' @ [0xACE0, 0xB3C4]
       @ ascii '': '') (ascii ''m'' @ [0xA])) (\<lambda>elevation_line.
       Inr ([0xD83D, 0xDCCD, 0x20, 0xC704, 0xCE58] @ ascii '': '' @ [0xC704, 0xB3C4, 0x20]
         @ num_str h latitude @ ascii '', '' @ [0xACBD, 0xB3C4, 0x20] @ num_str h longitude
         @ [0xA]
            @ timezone_line @ elevation_line @ [0xA])))))"

definition current_part0 :: "('n, 'b) host \<Rightarrow> 'n json \<Rightarrow> thrown + jsstring" where
  "current_part0 h data =
     and_then (get_prop h data (ascii ''current_weather'')) (\<lambda>current.
       if \<not> truthy h current then Inr []
       else
         and_then (get_prop h current (ascii ''weather_code'')) (\<lambda>weather_code.
         and_then (describe_code h weather_code) (\<lambda>weatherDesc.
         and_then (get_prop h current (ascii ''temperature'')) (\<lambda>temperature.
         and_then (to_str h temperature) (\<lambda>temperature_text.
         and_then (to_str h weather_code) (\<lambda>code_text.
         and_then (get_prop h current (ascii ''wind_speed'')) (\<lambda>wind_speed.
         and_then (to_str h wind_speed) (\<lambda>wind_speed_text.
         and_then (get_prop h current (ascii ''wind_direction'')) (\<lambda>wind_direction.
         and_then (to_str h wind_direction) (\<lambda>wind_direction_text.
         and_then (get_prop h current (ascii ''time'')) (\<lambda>time.
         and_then (to_str h time) (\<lambda>time_text.
           Inr ([0xD83C, 0xDF24, 0xFE0F] @ ascii ''  '' @ [0xD604, 0xC7AC, 0x20, 0xB0A0, 0xC528,
             0xA] @ rule_line
                @ [0xC628, 0xB3C4] @ ascii '': '' @ temperature_text @ [0xB0, 0x43, 0xA]
                @ [0xB0A0, 0xC528] @ ascii '': '' @ weatherDesc @ ascii '' ('' @ [0xCF54,
                  0xB4DC] @ ascii '': '' @ code_text @ ascii '')'' @ [0xA]
                @ [0xD48D, 0xC18D] @ ascii '': '' @ wind_speed_text @ ascii '' km/h'' @ [0xA]
                @ [0xD48D, 0xD5A5] @ ascii '': '' @ wind_direction_text @ [0xB0, 0xA]
                @ [0xC2DC, 0xAC04] @ ascii '': '' @ time_text @ [0xA]
                @ [0xA])))))))))))))"

definition daily_entry_part0 :: "('n, 'b) host \<Rightarrow> 'n json \<Rightarrow> nat \<Rightarrow> thrown + jsstring" where
  "daily_entry_part0 h daily i =
     and_then (get_prop h daily (ascii ''time'')) (\<lambda>time.
     and_then (js_date_label h (js_index time i)) (\<lambda>dateStr.
     and_then (get_prop h daily (ascii ''temperature_2m_max'')) (\<lambda>maxs.
     and_then (get_prop h daily (ascii ''temperature_2m_min'')) (\<lambda>mins.
     and_then (get_prop h daily (ascii ''precipitation_sum'')) (\<lambda>precips.
     and_then (get_prop h daily (ascii ''weather_code'')) (\<lambda>codes.
     and_then (get_prop h daily (ascii ''wind_speed_10m_max'')) (\<lambda>winds.
     and_then (if is_undefined (opt_index codes i) then Inr (ascii ''N/A'')
               else describe_code h (opt_index codes i)) (\<lambda>weatherDesc.
     and_then (if is_undefined (opt_index maxs i) \<or> is_undefined (opt_index mins i) then Inr []
               else and_then (to_str h (opt_index mins i)) (\<lambda>minTemp.
                    and_then (to_str h (opt_index maxs i)) (\<lambda>maxTemp.
                      Inr (ascii ''  '' @ [0xD83C, 0xDF21, 0xFE0F] @ ascii ''  '' @ [0xAE30,
                        0xC628] @ ascii '': '' @ minTemp @ [0xB0] @ ascii ''C ~ '' @ maxTemp
                        @ [0xB0, 0x43, 0xA]))))
       (\<lambda>temperature_line.
     and_then (when_defined h (opt_index precips i) (ascii ''  '' @ [0xD83C, 0xDF27, 0xFE0F]
       @ ascii ''  '' @ [0xAC15, 0xC218, 0xB7C9] @ ascii '': '') (ascii ''mm'' @ [0xA]))
       (\<lambda>precipitation_line.
     and_then (when_defined h (opt_index winds i) (ascii ''  '' @ [0xD83D, 0xDCA8, 0x20, 0xCD5C,
       0xB300, 0x20, 0xD48D, 0xC18D] @ ascii '': '') (ascii '' km/h'' @ [0xA]))
       (\<lambda>wind_line.
       Inr (dateStr @ [0xA]
            @ temperature_line
            @ (if is_undefined (opt_index codes i) then []
               else ascii ''  '' @ [0x2601, 0xFE0F] @ ascii ''  '' @ [0xB0A0, 0xC528]
                 @ ascii '': '' @ weatherDesc @ [0xA])
            @ precipitation_line
            @ wind_line
            @ [0xA]))))))))))))"

definition daily_part0 :: "('n, 'b) host \<Rightarrow> nat \<Rightarrow> 'n json \<Rightarrow> thrown + jsstring" where
  "daily_part0 h forecast_days data =
     and_then (get_prop h data (ascii ''daily'')) (\<lambda>daily.
       if \<not> truthy h daily then Inr []
       else
         and_then (get_prop h daily (ascii ''time'')) (\<lambda>time.
           if \<not> truthy h time then Inr []
           else for_loop (daily_entry_part0 h daily) (loop_count h time forecast_days) 0
                  ([0xD83D, 0xDCC5, 0x20] @ nat_str forecast_days @ [0xC77C, 0x20, 0xC77C,
                    0xBCC4, 0x20, 0xC608, 0xBCF4, 0xA] @ rule_line)))"

definition hourly_entry_part0 :: "('n, 'b) host \<Rightarrow> 'n json \<Rightarrow> nat \<Rightarrow> thrown + jsstring" where
  "hourly_entry_part0 h hourly i =
     and_then (get_prop h hourly (ascii ''time'')) (\<lambda>time.
     and_then (js_time_label h (js_index time i)) (\<lambda>timeStr.
     and_then (get_prop h hourly (ascii ''temperature_2m'')) (\<lambda>temps.
     and_then (get_prop h hourly (ascii ''relative_humidity_2m'')) (\<lambda>humidities.
     and_then (get_prop h hourly (ascii ''precipitation'')) (\<lambda>precips.
     and_then (get_prop h hourly (ascii ''wind_speed_10m'')) (\<lambda>speeds.
     and_then (get_prop h hourly (ascii ''wind_direction_10m'')) (\<lambda>dirs.
     and_then (get_prop h hourly (ascii ''weather_code'')) (\<lambda>codes.
     and_then (when_defined h (opt_index temps i) (ascii ''  '' @ [0xD83C, 0xDF21, 0xFE0F]
       @ ascii ''  '') ([0xB0, 0x43])) (\<lambda>temp_part.
     and_then (when_defined h (opt_index humidities i) (ascii '' | '' @ [0xD83D, 0xDCA7, 0x20,
       0xC2B5, 0xB3C4] @ ascii '': '') (ascii ''%''))
       (\<lambda>humidity_part.
     and_then (if is_undefined (opt_index precips i) then Inr []
               else and_then (js_gt_zero h (opt_index precips i)) (\<lambda>positive.
                      if positive
                      then and_then (to_str h (opt_index precips i)) (\<lambda>t.
                             Inr (ascii '' | '' @ [0xD83C, 0xDF27, 0xFE0F] @ ascii ''  ''
                               @ [0xAC15, 0xC218] @ ascii '': '' @ t @ ascii ''mm''))
                      else Inr [])) (\<lambda>precip_part.
     and_then (when_defined h (opt_index speeds i) (ascii '' | '' @ [0xD83D, 0xDCA8, 0x20,
       0xD48D, 0xC18D] @ ascii '': '') (ascii '' km/h''))
       (\<lambda>speed_part.
     and_then (when_defined h (opt_index dirs i) (ascii '' ('') ([0xB0, 0x29])) (\<lambda>dir_part.
     and_then (if is_undefined (opt_index codes i) then Inr []
               else and_then (describe_code h (opt_index codes i)) (\<lambda>d.
                      Inr (ascii '' | '' @ d))) (\<lambda>code_part.
       Inr (timeStr @ [0xA] @ temp_part @ humidity_part @ precip_part @ speed_part @ dir_part
            @ code_part @ [0xA])))))))))))))))"

definition hourly_part0 :: "('n, 'b) host \<Rightarrow> 'n json \<Rightarrow> thrown + jsstring" where
  "hourly_part0 h data =
     and_then (get_prop h data (ascii ''hourly'')) (\<lambda>hourly.
       if \<not> truthy h hourly then Inr []
       else
         and_then (get_prop h hourly (ascii ''time'')) (\<lambda>time.
           if \<not> truthy h time then Inr []
           else for_loop (hourly_entry_part0 h hourly) (loop_count h time 24) 0
                  ([0x23F0, 0x20, 0xB2E4, 0xC74C] @ ascii '' 24'' @ [0xC2DC, 0xAC04, 0x20,
                    0xC2DC, 0xAC04, 0xBCC4, 0x20, 0xC608, 0xBCF4, 0xA] @ rule_line)))"

definition get_weather_part0 ::
  "('n, 'b) host \<Rightarrow> 'n \<Rightarrow> 'n \<Rightarrow> nat option \<Rightarrow> jsstring option
     \<Rightarrow> (thrown + invocation_result) \<times> outbound list" where
  "get_weather_part0 h latitude longitude forecast_days timezone =
     (let req = weather_request_part0 h latitude longitude forecast_days timezone;
          days = (case forecast_days of None \<Rightarrow> 7 | Some d \<Rightarrow> d)
      in (case
            and_then (fetch h req) (\<lambda>response.
              if \<not> ok response
              then Inl (Error (ascii ''API '' @ [0xC694, 0xCCAD, 0x20, 0xC2E4, 0xD328]
                @ ascii '': '' @ nat_str (status response) @ ascii '' ''
                          @ statusText response))
              else
                and_then (json_body response) (\<lambda>data.
                and_then (get_prop h data (ascii ''error'')) (\<lambda>error.
                  if truthy h error
                  then and_then (get_prop h data (ascii ''reason'')) (\<lambda>reason.
                       and_then (to_str h (js_or h reason (JStr ([0xC54C, 0x20, 0xC218, 0x20,
                         0xC5C6, 0xB294, 0x20, 0xC624, 0xB958])))) (\<lambda>t.
                         Inl (Error (ascii ''API '' @ [0xC624, 0xB958] @ ascii '': '' @ t))))
                  else
                    and_then (header_part0 h latitude longitude data) (\<lambda>header_text.
                    and_then (current_part0 h data) (\<lambda>current_text.
                    and_then (daily_part0 h days data) (\<lambda>daily_text.
                    and_then (hourly_part0 h data) (\<lambda>hourly_text.
                      Inr (mirrored_result
                             (header_text @ current_text @ daily_text @ hourly_text))))))))) of
            Inr r \<Rightarrow> Inr r
          | Inl e \<Rightarrow> Inl (Error ([0xB0A0, 0xC528, 0x20, 0xC815, 0xBCF4, 0x20, 0xC870,
            0xD68C, 0x20, 0xC624, 0xB958] @ ascii '': ''
                       @ error_message [0xC54C, 0x20, 0xC218, 0x20, 0xC5C6, 0xB294, 0x20,
                         0xC624, 0xB958, 0xAC00, 0x20, 0xBC1C, 0xC0DD, 0xD588, 0xC2B5, 0xB2C8,
                         0xB2E4, 0x2E] e)),
          [Http req]))"

section \<open>The registered tools\<close>

text \<open>
  A call of one of the six tools with arguments that passed its input schema. The
  schema of \<open>src/index.ts\<close> for \<open>get-weather\<close> has no \<open>timezone\<close>, so that handler
  does not receive one.
\<close>

datatype 'n tool_call =
    Greet jsstring jsstring
  | Calculator 'n 'n jsstring
  | GetTime jsstring
  | Geocode jsstring "nat option" "jsstring option"
  | GetWeather 'n 'n "nat option" "jsstring option"
  | GenerateImage jsstring

fun call_index :: "('n, 'b) host \<Rightarrow> 'n tool_call \<Rightarrow> invocation_result \<times> outbound list" where
  "call_index h (Greet name language) = (greet_index name language, [])"
| "call_index h (Calculator num1 num2 operator) = (calculator_index h num1 num2 operator, [])"
| "call_index h (GetTime timezone) = (getTime_index h timezone, [])"
| "call_index h (Geocode address limit country) = geocode_index h address limit country"
| "call_index h (GetWeather latitude longitude forecast_days timezone) =
     get_weather_index h latitude longitude forecast_days"
| "call_index h (GenerateImage prompt) = generate_image_index h prompt"

fun call_part0 ::
  "('n, 'b) host \<Rightarrow> 'n tool_call \<Rightarrow> (thrown + invocation_result) \<times> outbound list" where
  "call_part0 h (Greet name language) = (Inr (greet_part0 name language), [])"
| "call_part0 h (Calculator num1 num2 operator) = (calculator_part0 h num1 num2 operator, [])"
| "call_part0 h (GetTime timezone) = (getTime_part0 h timezone, [])"
| "call_part0 h (Geocode address limit country) = geocode_part0 h address limit country"
| "call_part0 h (GetWeather latitude longitude forecast_days timezone) =
     get_weather_part0 h latitude longitude forecast_days timezone"
| "call_part0 h (GenerateImage prompt) = generate_image_part0 h prompt"

section \<open>The specification's reading of the two reports\<close>

text \<open>
  The first \<open>n\<close> entries of a report from index \<open>i\<close> on, one per index and in
  order, or the failure of the first entry that throws.
\<close>

fun entries_from :: "(nat \<Rightarrow> thrown + 'a) \<Rightarrow> nat \<Rightarrow> nat \<Rightarrow> thrown + 'a list" where
  "entries_from entry i 0 = Inr []"
| "entries_from entry i (Suc n) =
     and_then (entry i) (\<lambda>e. and_then (entries_from entry (Suc i) n) (\<lambda>es. Inr (e # es)))"


definition optional_field :: "jsstring \<Rightarrow> jsstring option \<Rightarrow> (jsstring \<times> 'n json) list" where
  "optional_field key v = (case v of None \<Rightarrow> [] | Some s \<Rightarrow> [(key, JStr s)])"






text \<open>The blocks of a list of matches, numbered from \<open>i + 1\<close> on.\<close>

fun numbered :: "(nat \<Rightarrow> 'a \<Rightarrow> 'c) \<Rightarrow> nat \<Rightarrow> 'a list \<Rightarrow> 'c list" where
  "numbered f i [] = []"
| "numbered f i (x # xs) = f i x # numbered f (Suc i) xs"

section \<open>A host to run the handlers on\<close>

text \<open>The number a decimal numeral stands for.\<close>

definition str_nat :: "jsstring \<Rightarrow> nat" where
  "str_nat s = foldl (\<lambda>a c. 10 * a + (unat c - 48)) 0 s"

text \<open>
  A host whose numbers are the integers, for evaluating the handlers on concrete inputs.
  It knows one time zone, refuses every outbound call and holds no credential; its
  \<open>parseFloat\<close> reads decimal numerals, its \<open>toFixed4\<close> appends four zeros, its case
  conversions act on ASCII letters, its date and time labels are the string given.
\<close>

definition int_host :: "(int, unit) host" where
  "int_host =
     \<lparr>num_str = int_str,
      num_add = (\<lambda>a b. a + b),
      num_sub = (\<lambda>a b. a - b),
      num_mul = (\<lambda>a b. a * b),
      num_div = (\<lambda>a b. a div b),
      num_is_zero = (\<lambda>a. a = 0),
      num_truthy = (\<lambda>a. a \<noteq> 0),
      format_time = (\<lambda>tz. if tz = ascii ''UTC'' then Some (ascii ''2025. 01. 01. 00:00:00'')
                          else None),
      fetch = (\<lambda>req. Inl NotAnError),
      textToImage = (\<lambda>req. Inl NotAnError),
      base64 = (\<lambda>blob. Inr (ascii ''AA=='')),
      env_HF_TOKEN = None,
      config_hfToken = None,
      obj_str = (\<lambda>v. Inr (ascii ''[object Object]'')),
      parseFloat = (\<lambda>s. int (str_nat s)),
      toFixed4 = (\<lambda>n. int_str n @ ascii ''.0000''),
      toUpperCase = map (\<lambda>c. if 97 \<le> c \<and> c \<le> 122 then c - 32 else c),
      toLowerCase = map (\<lambda>c. if 65 \<le> c \<and> c \<le> 90 then c + 32 else c),
      type_error = (\<lambda>key. ascii ''TypeError: '' @ key),
      gt_zero = (\<lambda>v. case v of JNum n \<Rightarrow> 0 < n | _ \<Rightarrow> False),
      date_label = (\<lambda>v. case v of JStr s \<Rightarrow> s | _ \<Rightarrow> ascii ''Invalid Date''),
      time_label = (\<lambda>v. case v of JStr s \<Rightarrow> s | _ \<Rightarrow> ascii ''Invalid Date''),
      count_below = (\<lambda>v m. case v of JNum n \<Rightarrow> min (nat n) m | _ \<Rightarrow> 0),
      describe_other = (\<lambda>v. Inr (ascii ''?''))\<rparr>"

text \<open>
  The integer host with an upstream that gives one answer to every request, and the
  answer with a success status and a given body.
\<close>

definition answering :: "int response \<Rightarrow> (int, unit) host" where
  "answering r = int_host\<lparr>fetch := (\<lambda>req. Inr r)\<rparr>"

definition ok_response :: "int json \<Rightarrow> int response" where
  "ok_response body =
     \<lparr>ok = True, status = 200, statusText = ascii ''OK'', json_body = Inr body\<rparr>"

text \<open>A forecast body with three days, and a match.\<close>

definition three_days_daily :: "int json" where
  "three_days_daily =
     JObj [(ascii ''time'',
            JArr [JStr (ascii ''2025-01-01''), JStr (ascii ''2025-01-02''),
                  JStr (ascii ''2025-01-03'')]),
           (ascii ''temperature_2m_max'', JArr [JNum 5, JNum 6, JNum 7]),
           (ascii ''temperature_2m_min'', JArr [JNum 1, JNum 2, JNum 3]),
           (ascii ''weather_code'', JArr [JNum 0, JNum 3, JNum 61])]"

definition three_days :: "int json" where
  "three_days = JObj [(ascii ''daily'', three_days_daily)]"


section \<open>The fields of the integer host\<close>

lemma int_host_sel:
  "num_str int_host = int_str"
  "num_add int_host = (\<lambda>a b. a + b)"
  "num_sub int_host = (\<lambda>a b. a - b)"
  "num_mul int_host = (\<lambda>a b. a * b)"
  "num_div int_host = (\<lambda>a b. a div b)"
  "num_is_zero int_host = (\<lambda>a. a = 0)"
  "num_truthy int_host = (\<lambda>a. a \<noteq> 0)"
  "format_time int_host =
     (\<lambda>tz. if tz = ascii ''UTC'' then Some (ascii ''2025. 01. 01. 00:00:00'') else None)"
  "fetch int_host = (\<lambda>req. Inl NotAnError)"
  "textToImage int_host = (\<lambda>req. Inl NotAnError)"
  "base64 int_host = (\<lambda>blob. Inr (ascii ''AA==''))"
  "env_HF_TOKEN int_host = None"
  "config_hfToken int_host = None"
  "obj_str int_host = (\<lambda>v. Inr (ascii ''[object Object]''))"
  "parseFloat int_host = (\<lambda>s. int (str_nat s))"
  "toFixed4 int_host = (\<lambda>n. int_str n @ ascii ''.0000'')"
  "toUpperCase int_host = map (\<lambda>c. if 97 \<le> c \<and> c \<le> 122 then c - 32 else c)"
  "toLowerCase int_host = map (\<lambda>c. if 65 \<le> c \<and> c \<le> 90 then c + 32 else c)"
  "type_error int_host = (\<lambda>key. ascii ''TypeError: '' @ key)"
  "gt_zero int_host = (\<lambda>v. case v of JNum n \<Rightarrow> 0 < n | _ \<Rightarrow> False)"
  "date_label int_host = (\<lambda>v. case v of JStr s \<Rightarrow> s | _ \<Rightarrow> ascii ''Invalid Date'')"
  "time_label int_host = (\<lambda>v. case v of JStr s \<Rightarrow> s | _ \<Rightarrow> ascii ''Invalid Date'')"
  "count_below int_host = (\<lambda>v m. case v of JNum n \<Rightarrow> min (nat n) m | _ \<Rightarrow> 0)"
  "describe_other int_host = (\<lambda>v. Inr (ascii ''?''))"
  by (simp_all add: int_host_def)

lemma answering_sel:
  "num_str (answering r) = int_str"
  "num_truthy (answering r) = (\<lambda>a. a \<noteq> 0)"
  "fetch (answering r) = (\<lambda>req. Inr r)"
  "obj_str (answering r) = obj_str int_host"
  "parseFloat (answering r) = parseFloat int_host"
  "toFixed4 (answering r) = toFixed4 int_host"
  "toUpperCase (answering r) = toUpperCase int_host"
  "toLowerCase (answering r) = toLowerCase int_host"
  "type_error (answering r) = type_error int_host"
  "gt_zero (answering r) = gt_zero int_host"
  "date_label (answering r) = date_label int_host"
  "time_label (answering r) = time_label int_host"
  "count_below (answering r) = count_below int_host"
  "describe_other (answering r) = describe_other int_host"
  by (simp_all add: answering_def int_host_sel)

section \<open>Sequencing\<close>

lemma and_then_simps [simp]:
  "and_then (Inl e) f = Inl e"
  "and_then (Inr x) f = f x"
  by (simp_all add: and_then_def)

section \<open>Decimal numerals\<close>

lemma unat_digit: "n < 10 \<Longrightarrow> unat (of_nat (48 + n) :: 16 word) = 48 + n"
  using unat_of_nat [of "48 + n", where 'a = 16] by simp

lemma str_nat_nat_str: "str_nat (nat_str n) = n"
proof (induction n rule: nat_str.induct)
  case (1 n)
  show ?case
  proof (cases "n < 10")
    case True
    then show ?thesis
      using unat_digit [of n] by (simp add: nat_str.simps[of n] str_nat_def)
  next
    case False
    with 1 have ih: "str_nat (nat_str (n div 10)) = n div 10" by simp
    have "n mod 10 < 10" by simp
    then have "unat (of_nat (48 + n mod 10) :: 16 word) = 48 + n mod 10" by (rule unat_digit)
    then have "unat (48 + of_nat (n mod 10) :: 16 word) = 48 + n mod 10" by simp
    with False ih show ?thesis
      by (simp add: nat_str.simps[of n] str_nat_def)
  qed
qed

lemma nat_str_inj: "nat_str m = nat_str n \<Longrightarrow> m = n"
  by (metis str_nat_nat_str)

lemma nat_str_not_Nil: "nat_str n \<noteq> []"
  by (subst nat_str.simps) simp

lemma nat_str_digits: "c \<in> set (nat_str n) \<Longrightarrow> 48 \<le> unat c"
proof (induction n rule: nat_str.induct)
  case (1 n)
  show ?case
  proof (cases "n < 10")
    case True
    with 1(2) show ?thesis using unat_digit [of n] by (simp add: nat_str.simps[of n])
  next
    case False
    have "unat (of_nat (48 + n mod 10) :: 16 word) = 48 + n mod 10" by (rule unat_digit) simp
    then have "unat (48 + of_nat (n mod 10) :: 16 word) = 48 + n mod 10" by simp
    with False 1 show ?thesis
      by (auto simp add: nat_str.simps[of n])
  qed
qed

lemma nat_str_no_minus: "nat_str n \<noteq> ascii ''-'' @ s"
proof
  assume a: "nat_str n = ascii ''-'' @ s"
  have "(45 :: 16 word) \<in> set (nat_str n)" unfolding a by (simp add: ascii_def)
  then have "48 \<le> unat (45 :: 16 word)" by (rule nat_str_digits)
  then show False by simp
qed

lemma int_str_inj: "int_str j = int_str k \<Longrightarrow> j = k"
  unfolding int_str_def
  by (auto split: if_splits dest: nat_str_inj simp: nat_str_no_minus nat_str_no_minus[symmetric])

section \<open>greet\<close>

text \<open>
  C6. For every name the greeting handler returns exactly the Korean greeting
  (annyeonghaseyo, name, nim!) when the language is "ko" and exactly
  "Hey there, name! (waving hand) Nice to meet you!" otherwise, in both files; for the
  name "Tom" and the language "ko" the text is the twelve code units of the Korean
  greeting of Tom.
\<close>

theorem greet_text_exact:
  "content (greet_index name (ascii ''ko''))
     = [Text ([0xC548, 0xB155, 0xD558, 0xC138, 0xC694] @ ascii '', '' @ name @ [0xB2D8, 0x21])]
   \<and> content (greet_part0 name (ascii ''ko''))
     = [Text ([0xC548, 0xB155, 0xD558, 0xC138, 0xC694] @ ascii '', '' @ name @ [0xB2D8, 0x21])]
   \<and> (language \<noteq> ascii ''ko'' \<longrightarrow>
        content (greet_index name language)
          = [Text (ascii ''Hey there, '' @ name @ ascii ''! '' @ [0xD83D, 0xDC4B]
                   @ ascii '' Nice to meet you!'')]
      \<and> content (greet_part0 name language)
          = [Text (ascii ''Hey there, '' @ name @ ascii ''! '' @ [0xD83D, 0xDC4B]
                   @ ascii '' Nice to meet you!'')])
   \<and> \<not> isError (greet_index name language) \<and> \<not> isError (greet_part0 name language)
   \<and> content (greet_index (ascii ''Tom'') (ascii ''ko''))
     = [Text [0xC548, 0xB155, 0xD558, 0xC138, 0xC694, 0x2C, 0x20, 0x54, 0x6F, 0x6D, 0xB2D8, 0x21]]
   \<and> content (greet_part0 (ascii ''Tom'') (ascii ''ko''))
     = [Text [0xC548, 0xB155, 0xD558, 0xC138, 0xC694, 0x2C, 0x20, 0x54, 0x6F, 0x6D, 0xB2D8, 0x21]]"
  by (simp add: greet_index_def greet_part0_def greeting_def text_result_def
      mirrored_result_def ascii_def)

theorem greet_text_exact_witness:
  "ascii ''en'' \<noteq> ascii ''ko''
   \<and> content (greet_index (ascii ''Ada'') (ascii ''en''))
       = [Text (ascii ''Hey there, Ada! '' @ [0xD83D, 0xDC4B] @ ascii '' Nice to meet you!'')]
   \<and> content (greet_part0 (ascii ''Ada'') (ascii ''en''))
       = [Text (ascii ''Hey there, Ada! '' @ [0xD83D, 0xDC4B] @ ascii '' Nice to meet you!'')]"
  using greet_text_exact [of "ascii ''Ada''" "ascii ''en''"]
  by (simp add: ascii_def)

section \<open>calculator\<close>



section \<open>getTime\<close>

text \<open>
  C3. For every timezone string that the date-formatting facility does not recognise,
  the getTime handler of src/index.ts returns an error-flagged result whose only text is
  the invalid-timezone message ending in the timezone given, and the handler of the
  other file throws an Error whose message is that same text followed by the hint on
  the IANA format; neither returns a time.
\<close>

theorem getTime_invalid_timezone:
  assumes "format_time h timezone = None"
  shows "getTime_index h timezone
           = \<lparr>content = [Text ([0xC720, 0xD6A8, 0xD558, 0xC9C0, 0x20, 0xC54A, 0xC740]
                @ ascii '' timezone'' @ [0xC785, 0xB2C8, 0xB2E4] @ ascii '': '' @ timezone)],
              structuredContent = None, isError = True\<rparr>
       \<and> getTime_part0 h timezone
           = Inl (Error ([0xC720, 0xD6A8, 0xD558, 0xC9C0, 0x20, 0xC54A, 0xC740]
                @ ascii '' timezone'' @ [0xC785, 0xB2C8, 0xB2E4] @ ascii '': '' @ timezone
                @ ascii ''. IANA Timezone ''
                @ [0xD615, 0xC2DD, 0xC744, 0x20, 0xC0AC, 0xC6A9, 0xD574, 0xC8FC, 0xC138, 0xC694]
                @ ascii '' ('' @ [0xC608] @ ascii '': Asia/Seoul, America/New_York).''))"
  using assms
  by (simp add: getTime_index_def getTime_part0_def invalid_timezone_def error_result_def)

theorem getTime_invalid_timezone_witness:
  "format_time int_host (ascii ''Mars/Olympus'') = None
   \<and> isError (getTime_index int_host (ascii ''Mars/Olympus''))
   \<and> content (getTime_index int_host (ascii ''Mars/Olympus''))
       = [Text ([0xC720, 0xD6A8, 0xD558, 0xC9C0, 0x20, 0xC54A, 0xC740]
                @ ascii '' timezone'' @ [0xC785, 0xB2C8, 0xB2E4] @ ascii '': Mars/Olympus'')]
   \<and> (\<exists>m. getTime_part0 int_host (ascii ''Mars/Olympus'') = Inl (Error m))"
proof -
  have h: "format_time int_host (ascii ''Mars/Olympus'') = None"
    by (simp add: int_host_sel ascii_def)
  show ?thesis
    using h getTime_invalid_timezone [OF h] by (simp add: ascii_def)
qed

section \<open>The weather-code table\<close>

lemma map_of_keyed:
  "map_of (map (\<lambda>(k, d). (int_str k, d)) xs) (int_str k) = map_of xs k"
  by (induction xs) (auto dest: int_str_inj)

lemma weatherCodes_nonempty: "(k, d) \<in> set weatherCodes \<Longrightarrow> d \<noteq> []"
  by (auto simp: weatherCodes_def)

lemma weather_lookup_nonempty: "weather_lookup key \<noteq> []"
proof (cases "map_of (map (\<lambda>(k, d). (int_str k, d)) weatherCodes) key")
  case None
  then show ?thesis by (simp add: weather_lookup_def weather_fallback_def)
next
  case (Some d)
  then have "(key, d) \<in> set (map (\<lambda>(k, d). (int_str k, d)) weatherCodes)"
    by (rule map_of_SomeD)
  then obtain k where "(k, d) \<in> set weatherCodes" by auto
  then have "d \<noteq> []" by (rule weatherCodes_nonempty)
  with Some show ?thesis by (simp add: weather_lookup_def)
qed

text \<open>
  C10. The weather-code decoding function returns a non-empty string for every number;
  for a number that is the integer k (its string is the decimal numeral of k) it returns
  the description the table holds for k, glyph included, when k is a key of the table, and
  the fallback text (nalssi kodeu: k) when it is not.
\<close>

theorem getWeatherDescription_total:
  "getWeatherDescription h code \<noteq> []
   \<and> (num_str h code = int_str k \<longrightarrow>
        getWeatherDescription h code =
          (case map_of weatherCodes k of
             Some d \<Rightarrow> d
           | None \<Rightarrow> [0xB0A0, 0xC528, 0x20, 0xCF54, 0xB4DC] @ ascii '': '' @ int_str k))"
  by (simp add: getWeatherDescription_def weather_lookup_nonempty)
     (simp add: weather_lookup_def map_of_keyed weather_fallback_def split: option.split)

theorem getWeatherDescription_total_witness:
  "num_str int_host (-7) = int_str (-7) \<and> num_str int_host 95 = int_str 95
   \<and> getWeatherDescription int_host (-7)
       = [0xB0A0, 0xC528, 0x20, 0xCF54, 0xB4DC] @ ascii '': -7''
   \<and> getWeatherDescription int_host 95 = [0x26C8, 0xFE0F, 0x20, 0xCC9C, 0xB465, 0xBC88, 0xAC1C]"
  using getWeatherDescription_total [of int_host "-7" "-7"]
        getWeatherDescription_total [of int_host 95 95]
  by (simp add: int_host_sel weatherCodes_def int_str_def nat_str.simps ascii_def)

section \<open>Every result carries content\<close>

lemma geocode_index_content: "content (fst (geocode_index h address limit country)) \<noteq> []"
  by (auto simp: geocode_index_def Let_def geocode_failed_index_def error_result_def
      text_result_def and_then_def split: sum.split json.split if_split)

lemma geocode_part0_content:
  "case fst (geocode_part0 h address limit country) of
     Inr r \<Rightarrow> content r \<noteq> []
   | Inl e \<Rightarrow> \<exists>m. e = Error m \<and> m \<noteq> []"
  by (auto simp: geocode_part0_def Let_def mirrored_result_def and_then_def
      split: sum.split json.split if_split)

lemma get_weather_index_content:
  "content (fst (get_weather_index h latitude longitude forecast_days)) \<noteq> []"
  by (auto simp: get_weather_index_def Let_def error_result_def
      text_result_def and_then_def split: sum.split if_split)

lemma get_weather_part0_content:
  "case fst (get_weather_part0 h latitude longitude forecast_days timezone) of
     Inr r \<Rightarrow> content r \<noteq> []
   | Inl e \<Rightarrow> \<exists>m. e = Error m \<and> m \<noteq> []"
  by (auto simp: get_weather_part0_def Let_def mirrored_result_def and_then_def
      split: sum.split if_split)

lemma generate_image_index_content: "content (fst (generate_image_index h prompt)) \<noteq> []"
  by (auto simp: generate_image_index_def Let_def error_result_def image_result_def
      split: sum.splits option.splits if_splits)

lemma generate_image_part0_content:
  "case fst (generate_image_part0 h prompt) of
     Inr r \<Rightarrow> content r \<noteq> []
   | Inl e \<Rightarrow> \<exists>m. e = Error m \<and> m \<noteq> []"
  by (auto simp: generate_image_part0_def Let_def image_result_def
      split: sum.splits)

lemma calculator_index_content: "content (calculator_index h num1 num2 operator) \<noteq> []"
  by (simp add: calculator_index_def text_result_def error_result_def)

lemma calculator_part0_content:
  "case calculator_part0 h num1 num2 operator of
     Inr r \<Rightarrow> content r \<noteq> []
   | Inl e \<Rightarrow> \<exists>m. e = Error m \<and> m \<noteq> []"
  by (simp add: calculator_part0_def mirrored_result_def)

lemma getTime_index_content: "content (getTime_index h timezone) \<noteq> []"
  by (simp add: getTime_index_def text_result_def error_result_def split: option.splits)

lemma getTime_part0_content:
  "case getTime_part0 h timezone of
     Inr r \<Rightarrow> content r \<noteq> []
   | Inl e \<Rightarrow> \<exists>m. e = Error m \<and> m \<noteq> []"
  by (simp add: getTime_part0_def mirrored_result_def invalid_timezone_def split: option.splits)

text \<open>
  C2. Every call of a tool, whatever its outcome, gives at least one content block: in
  src/index.ts every handler returns a result whose content list is not empty, and in the
  other file every handler either returns such a result or throws an Error with a
  non-empty message.
\<close>

theorem every_result_has_content:
  "content (fst (call_index h call)) \<noteq> []
   \<and> (case fst (call_part0 h call) of
        Inr r \<Rightarrow> content r \<noteq> []
      | Inl e \<Rightarrow> \<exists>m. e = Error m \<and> m \<noteq> [])"
proof (cases call)
  case (Greet name language)
  then show ?thesis by (simp add: greet_index_def greet_part0_def text_result_def mirrored_result_def)
next
  case (Calculator num1 num2 operator)
  then show ?thesis using calculator_index_content [of h] calculator_part0_content [of h] by simp
next
  case (GetTime timezone)
  then show ?thesis using getTime_index_content [of h] getTime_part0_content [of h] by simp
next
  case (Geocode address limit country)
  then show ?thesis using geocode_index_content [of h] geocode_part0_content [of h] by simp
next
  case (GetWeather latitude longitude forecast_days timezone)
  then show ?thesis using get_weather_index_content [of h] get_weather_part0_content [of h] by simp
next
  case (GenerateImage prompt)
  then show ?thesis using generate_image_index_content [of h] generate_image_part0_content [of h] by simp
qed

section \<open>Tools that do not read the credential\<close>

text \<open>
  The two credential fields of the host are read by the image handlers only: every other
  function of the model gives the same value whatever they hold.
\<close>

lemma truthy_credential [simp]: "truthy (h\<lparr>env_HF_TOKEN := t, config_hfToken := c\<rparr>) = truthy h"
  by (intro ext) (case_tac x; simp)

lemma get_prop_credential [simp]: "get_prop (h\<lparr>env_HF_TOKEN := t, config_hfToken := c\<rparr>) = get_prop h"
  by (intro ext) (case_tac x; simp)

lemma to_str_credential [simp]: "to_str (h\<lparr>env_HF_TOKEN := t, config_hfToken := c\<rparr>) = to_str h"
  by (intro ext) (case_tac x; simp)

lemma to_primitive_credential [simp]: "to_primitive (h\<lparr>env_HF_TOKEN := t, config_hfToken := c\<rparr>) = to_primitive h"
  by (intro ext) (case_tac x; simp)

lemma js_or_credential [simp]: "js_or (h\<lparr>env_HF_TOKEN := t, config_hfToken := c\<rparr>) = js_or h"
  by (intro ext)
     (simp add: js_or_def cong: if_cong option.case_cong json.case_cong sum.case_cong)

lemma js_parseFloat_credential [simp]: "js_parseFloat (h\<lparr>env_HF_TOKEN := t, config_hfToken := c\<rparr>) = js_parseFloat h"
  by (intro ext)
     (simp add: js_parseFloat_def cong: if_cong option.case_cong json.case_cong sum.case_cong)

lemma js_gt_zero_credential [simp]: "js_gt_zero (h\<lparr>env_HF_TOKEN := t, config_hfToken := c\<rparr>) = js_gt_zero h"
  by (intro ext)
     (simp add: js_gt_zero_def cong: if_cong option.case_cong json.case_cong sum.case_cong)

lemma js_date_label_credential [simp]: "js_date_label (h\<lparr>env_HF_TOKEN := t, config_hfToken := c\<rparr>) = js_date_label h"
  by (intro ext)
     (simp add: js_date_label_def cong: if_cong option.case_cong json.case_cong sum.case_cong)

lemma js_time_label_credential [simp]: "js_time_label (h\<lparr>env_HF_TOKEN := t, config_hfToken := c\<rparr>) = js_time_label h"
  by (intro ext)
     (simp add: js_time_label_def cong: if_cong option.case_cong json.case_cong sum.case_cong)

lemma calc_text_credential [simp]: "calc_text (h\<lparr>env_HF_TOKEN := t, config_hfToken := c\<rparr>) = calc_text h"
  by (intro ext)
     (simp add: calc_text_def cong: if_cong option.case_cong json.case_cong sum.case_cong)

lemma calculator_index_credential [simp]: "calculator_index (h\<lparr>env_HF_TOKEN := t, config_hfToken := c\<rparr>) = calculator_index h"
  by (intro ext)
     (simp add: calculator_index_def cong: if_cong option.case_cong json.case_cong sum.case_cong)

lemma calculator_part0_credential [simp]: "calculator_part0 (h\<lparr>env_HF_TOKEN := t, config_hfToken := c\<rparr>) = calculator_part0 h"
  by (intro ext)
     (simp add: calculator_part0_def cong: if_cong option.case_cong json.case_cong sum.case_cong)

lemma getTime_index_credential [simp]: "getTime_index (h\<lparr>env_HF_TOKEN := t, config_hfToken := c\<rparr>) = getTime_index h"
  by (intro ext)
     (simp add: getTime_index_def cong: if_cong option.case_cong json.case_cong sum.case_cong)

lemma getTime_part0_credential [simp]: "getTime_part0 (h\<lparr>env_HF_TOKEN := t, config_hfToken := c\<rparr>) = getTime_part0 h"
  by (intro ext)
     (simp add: getTime_part0_def cong: if_cong option.case_cong json.case_cong sum.case_cong)

lemma getWeatherDescription_credential [simp]: "getWeatherDescription (h\<lparr>env_HF_TOKEN := t, config_hfToken := c\<rparr>) = getWeatherDescription h"
  by (intro ext)
     (simp add: getWeatherDescription_def cong: if_cong option.case_cong json.case_cong sum.case_cong)

lemma geocode_request_credential [simp]: "geocode_request (h\<lparr>env_HF_TOKEN := t, config_hfToken := c\<rparr>) = geocode_request h"
  by (intro ext)
     (simp add: geocode_request_def cong: if_cong option.case_cong json.case_cong sum.case_cong)

lemma geocode_block_index_credential [simp]: "geocode_block_index (h\<lparr>env_HF_TOKEN := t, config_hfToken := c\<rparr>) = geocode_block_index h"
  by (intro ext)
     (simp add: geocode_block_index_def cong: if_cong option.case_cong json.case_cong sum.case_cong)

lemma geocode_index_credential [simp]: "geocode_index (h\<lparr>env_HF_TOKEN := t, config_hfToken := c\<rparr>) = geocode_index h"
  by (intro ext)
     (simp add: geocode_index_def cong: if_cong option.case_cong json.case_cong sum.case_cong)

lemma geocode_country_code_credential [simp]: "geocode_country_code (h\<lparr>env_HF_TOKEN := t, config_hfToken := c\<rparr>) = geocode_country_code h"
  by (intro ext)
     (simp add: geocode_country_code_def cong: if_cong option.case_cong json.case_cong sum.case_cong)

lemma geocode_importance_credential [simp]: "geocode_importance (h\<lparr>env_HF_TOKEN := t, config_hfToken := c\<rparr>) = geocode_importance h"
  by (intro ext)
     (simp add: geocode_importance_def cong: if_cong option.case_cong json.case_cong sum.case_cong)

lemma geocode_details_credential [simp]: "geocode_details (h\<lparr>env_HF_TOKEN := t, config_hfToken := c\<rparr>) = geocode_details h"
  by (intro ext)
     (simp add: geocode_details_def cong: if_cong option.case_cong json.case_cong sum.case_cong)

lemma geocode_block_part0_credential [simp]: "geocode_block_part0 (h\<lparr>env_HF_TOKEN := t, config_hfToken := c\<rparr>) = geocode_block_part0 h"
  by (intro ext)
     (simp add: geocode_block_part0_def cong: if_cong option.case_cong json.case_cong sum.case_cong)

lemma geocode_part0_credential [simp]: "geocode_part0 (h\<lparr>env_HF_TOKEN := t, config_hfToken := c\<rparr>) = geocode_part0 h"
  by (intro ext)
     (simp add: geocode_part0_def cong: if_cong option.case_cong json.case_cong sum.case_cong)

lemma describe_code_credential [simp]: "describe_code (h\<lparr>env_HF_TOKEN := t, config_hfToken := c\<rparr>) = describe_code h"
  by (intro ext)
     (simp add: describe_code_def cong: if_cong option.case_cong json.case_cong sum.case_cong)

lemma loop_count_credential [simp]: "loop_count (h\<lparr>env_HF_TOKEN := t, config_hfToken := c\<rparr>) = loop_count h"
  by (intro ext)
     (simp add: loop_count_def cong: if_cong option.case_cong json.case_cong sum.case_cong)

lemma when_defined_credential [simp]: "when_defined (h\<lparr>env_HF_TOKEN := t, config_hfToken := c\<rparr>) = when_defined h"
  by (intro ext)
     (simp add: when_defined_def cong: if_cong option.case_cong json.case_cong sum.case_cong)

lemma weather_request_index_credential [simp]: "weather_request_index (h\<lparr>env_HF_TOKEN := t, config_hfToken := c\<rparr>) = weather_request_index h"
  by (intro ext)
     (simp add: weather_request_index_def cong: if_cong option.case_cong json.case_cong sum.case_cong)

lemma current_index_credential [simp]: "current_index (h\<lparr>env_HF_TOKEN := t, config_hfToken := c\<rparr>) = current_index h"
  by (intro ext)
     (simp add: current_index_def cong: if_cong option.case_cong json.case_cong sum.case_cong)

lemma daily_entry_index_credential [simp]: "daily_entry_index (h\<lparr>env_HF_TOKEN := t, config_hfToken := c\<rparr>) = daily_entry_index h"
  by (intro ext)
     (simp add: daily_entry_index_def cong: if_cong option.case_cong json.case_cong sum.case_cong)

lemma daily_index_credential [simp]: "daily_index (h\<lparr>env_HF_TOKEN := t, config_hfToken := c\<rparr>) = daily_index h"
  by (intro ext)
     (simp add: daily_index_def cong: if_cong option.case_cong json.case_cong sum.case_cong)

lemma get_weather_index_credential [simp]: "get_weather_index (h\<lparr>env_HF_TOKEN := t, config_hfToken := c\<rparr>) = get_weather_index h"
  by (intro ext)
     (simp add: get_weather_index_def cong: if_cong option.case_cong json.case_cong sum.case_cong)

lemma weather_request_part0_credential [simp]: "weather_request_part0 (h\<lparr>env_HF_TOKEN := t, config_hfToken := c\<rparr>) = weather_request_part0 h"
  by (intro ext)
     (simp add: weather_request_part0_def cong: if_cong option.case_cong json.case_cong sum.case_cong)

lemma header_part0_credential [simp]: "header_part0 (h\<lparr>env_HF_TOKEN := t, config_hfToken := c\<rparr>) = header_part0 h"
  by (intro ext)
     (simp add: header_part0_def cong: if_cong option.case_cong json.case_cong sum.case_cong)

lemma current_part0_credential [simp]: "current_part0 (h\<lparr>env_HF_TOKEN := t, config_hfToken := c\<rparr>) = current_part0 h"
  by (intro ext)
     (simp add: current_part0_def cong: if_cong option.case_cong json.case_cong sum.case_cong)

lemma daily_entry_part0_credential [simp]: "daily_entry_part0 (h\<lparr>env_HF_TOKEN := t, config_hfToken := c\<rparr>) = daily_entry_part0 h"
  by (intro ext)
     (simp add: daily_entry_part0_def cong: if_cong option.case_cong json.case_cong sum.case_cong)

lemma daily_part0_credential [simp]: "daily_part0 (h\<lparr>env_HF_TOKEN := t, config_hfToken := c\<rparr>) = daily_part0 h"
  by (intro ext)
     (simp add: daily_part0_def cong: if_cong option.case_cong json.case_cong sum.case_cong)

lemma hourly_entry_part0_credential [simp]: "hourly_entry_part0 (h\<lparr>env_HF_TOKEN := t, config_hfToken := c\<rparr>) = hourly_entry_part0 h"
  by (intro ext)
     (simp add: hourly_entry_part0_def cong: if_cong option.case_cong json.case_cong sum.case_cong)

lemma hourly_part0_credential [simp]: "hourly_part0 (h\<lparr>env_HF_TOKEN := t, config_hfToken := c\<rparr>) = hourly_part0 h"
  by (intro ext)
     (simp add: hourly_part0_def cong: if_cong option.case_cong json.case_cong sum.case_cong)

lemma get_weather_part0_credential [simp]: "get_weather_part0 (h\<lparr>env_HF_TOKEN := t, config_hfToken := c\<rparr>) = get_weather_part0 h"
  by (intro ext)
     (simp add: get_weather_part0_def cong: if_cong option.case_cong json.case_cong sum.case_cong)


lemma call_index_credential:
  "(\<forall>p. call \<noteq> GenerateImage p) \<Longrightarrow>
   call_index (h\<lparr>env_HF_TOKEN := t, config_hfToken := c\<rparr>) call = call_index h call"
  by (cases call) simp_all

lemma call_part0_credential:
  "(\<forall>p. call \<noteq> GenerateImage p) \<Longrightarrow>
   call_part0 (h\<lparr>env_HF_TOKEN := t, config_hfToken := c\<rparr>) call = call_part0 h call"
  by (cases call) simp_all


section \<open>generate-image\<close>

text \<open>
  C9, as stated, fails in the file that takes the credential from the configuration or the
  environment: with neither set, its handler still calls the inference client, and where
  the client answers, the call returns the image.
\<close>

theorem generate_image_call_without_credential:
  "env_HF_TOKEN (int_host\<lparr>textToImage := (\<lambda>req. Inr ())\<rparr>) = None
   \<and> config_hfToken (int_host\<lparr>textToImage := (\<lambda>req. Inr ())\<rparr>) = None
   \<and> generate_image_part0 (int_host\<lparr>textToImage := (\<lambda>req. Inr ())\<rparr>) (ascii ''a cat'')
       = (Inr \<lparr>content = [Image (ascii ''AA=='') (ascii ''image/png'')],
                structuredContent = None, isError = False\<rparr>,
          [Inference \<lparr>access_token = None, provider = ascii ''auto'',
                      model = ascii ''black-forest-labs/FLUX.1-schnell'',
                      inputs = ascii ''a cat'', num_inference_steps = 5\<rparr>])"
  by (simp add: generate_image_part0_def hf_credential_def image_result_def int_host_sel)

text \<open>
  C9, amended. In src/index.ts, when HF_TOKEN is unset or empty in the environment, the
  image handler returns, for every prompt and without calling the inference client, an
  error-flagged result saying that the HF_TOKEN environment variable is not set. In the
  other file the handler calls the inference client once for every prompt, with the
  token of the configuration or else of the environment, which is none when neither is
  set; an Error thrown by the client is thrown on as an image-generation error with the
  client's message and the hint to check HF_TOKEN. No other tool of either file reads
  the credential: its outcome and its outbound calls are the same whatever the two
  credential fields hold.
\<close>

theorem generate_image_credential:
  "((env_HF_TOKEN h = None \<or> env_HF_TOKEN h = Some []) \<longrightarrow>
      generate_image_index h prompt
        = (\<lparr>content = [Text (ascii ''HF_TOKEN '' @ [0xD658, 0xACBD, 0x20, 0xBCC0, 0xC218,
          0xAC00, 0x20, 0xC124, 0xC815, 0xB418, 0xC9C0, 0x20, 0xC54A, 0xC558, 0xC2B5, 0xB2C8,
          0xB2E4, 0x2E])],
            structuredContent = None, isError = True\<rparr>, []))
   \<and> snd (generate_image_part0 h prompt)
       = [Inference \<lparr>access_token = hf_credential h, provider = ascii ''auto'',
                     model = ascii ''black-forest-labs/FLUX.1-schnell'',
                     inputs = prompt, num_inference_steps = 5\<rparr>]
   \<and> ((config_hfToken h = None \<or> config_hfToken h = Some []) \<and> env_HF_TOKEN h = None \<longrightarrow>
        hf_credential h = None)
   \<and> (\<forall>m. textToImage h \<lparr>access_token = hf_credential h, provider = ascii ''auto'',
                     model = ascii ''black-forest-labs/FLUX.1-schnell'',
                     inputs = prompt, num_inference_steps = 5\<rparr> = Inl (Error m) \<longrightarrow>
          fst (generate_image_part0 h prompt)
            = Inl (Error ([0xC774, 0xBBF8, 0xC9C0, 0x20, 0xC0DD, 0xC131, 0x20, 0xC624, 0xB958]
              @ ascii '': '' @ m
                     @ ascii ''. HF_TOKEN '' @ [0xD658, 0xACBD, 0x20, 0xBCC0, 0xC218, 0xAC00,
                       0x20, 0xC124, 0xC815, 0xB418, 0xC5B4, 0x20, 0xC788, 0xB294, 0xC9C0, 0x20,
                       0xD655, 0xC778, 0xD574, 0xC8FC, 0xC138, 0xC694, 0x2E])))
   \<and> (\<forall>call. (\<forall>p. call \<noteq> GenerateImage p) \<longrightarrow>
          call_index (h\<lparr>env_HF_TOKEN := t, config_hfToken := c\<rparr>) call = call_index h call
        \<and> call_part0 (h\<lparr>env_HF_TOKEN := t, config_hfToken := c\<rparr>) call = call_part0 h call)"
  by (auto simp: generate_image_index_def generate_image_part0_def hf_credential_def
      missing_token_text_def error_result_def error_message_def Let_def
      call_index_credential call_part0_credential)

theorem generate_image_credential_witness:
  "env_HF_TOKEN int_host = None \<and> config_hfToken int_host = None
   \<and> generate_image_index int_host (ascii ''a cat'')
       = (\<lparr>content = [Text (ascii ''HF_TOKEN '' @ [0xD658, 0xACBD, 0x20, 0xBCC0, 0xC218,
         0xAC00, 0x20, 0xC124, 0xC815, 0xB418, 0xC9C0, 0x20, 0xC54A, 0xC558, 0xC2B5, 0xB2C8,
         0xB2E4, 0x2E])],
           structuredContent = None, isError = True\<rparr>, [])
   \<and> hf_credential int_host = None
   \<and> textToImage (int_host\<lparr>textToImage := (\<lambda>req. Inl (Error (ascii ''401'')))\<rparr>)
         \<lparr>access_token = hf_credential (int_host\<lparr>textToImage := (\<lambda>req. Inl (Error (ascii ''401'')))\<rparr>),
          provider = ascii ''auto'', model = ascii ''black-forest-labs/FLUX.1-schnell'',
          inputs = ascii ''a cat'', num_inference_steps = 5\<rparr> = Inl (Error (ascii ''401''))
   \<and> fst (generate_image_part0 (int_host\<lparr>textToImage := (\<lambda>req. Inl (Error (ascii ''401'')))\<rparr>)
          (ascii ''a cat''))
       = Inl (Error ([0xC774, 0xBBF8, 0xC9C0, 0x20, 0xC0DD, 0xC131, 0x20, 0xC624, 0xB958]
         @ ascii '': '' @ ascii ''401''
                @ ascii ''. HF_TOKEN '' @ [0xD658, 0xACBD, 0x20, 0xBCC0, 0xC218, 0xAC00, 0x20,
                  0xC124, 0xC815, 0xB418, 0xC5B4, 0x20, 0xC788, 0xB294, 0xC9C0, 0x20, 0xD655,
                  0xC778, 0xD574, 0xC8FC, 0xC138, 0xC694, 0x2E]))
   \<and> (\<forall>p. GetTime (ascii ''UTC'') \<noteq> (GenerateImage p :: int tool_call))
   \<and> call_part0 (int_host\<lparr>env_HF_TOKEN := Some (ascii ''hf_x''), config_hfToken := None\<rparr>)
         (GetTime (ascii ''UTC''))
       = call_part0 int_host (GetTime (ascii ''UTC''))"
  using generate_image_credential [of int_host "ascii ''a cat''" "Some (ascii ''hf_x'')" None]
        generate_image_credential
          [of "int_host\<lparr>textToImage := (\<lambda>req. Inl (Error (ascii ''401'')))\<rparr>" "ascii ''a cat''"]
  by (simp add: int_host_sel)

section \<open>greet\<close>

text \<open>
  C7. For a language among ko and en the greet tool is the handler applied to the name
  and the language, a function of these two alone: it reads nothing of the host and makes
  no outbound call, so equal inputs give equal results; a call with the language left
  out gives the result of the call with the language "en".
\<close>

theorem greet_pure:
  "(language \<in> {ascii ''ko'', ascii ''en''} \<longrightarrow>
      greet_tool_index name (Some language) = Inr (greet_index name language)
    \<and> greet_tool_part0 name (Some language) = Inr (greet_part0 name language))
   \<and> greet_tool_index name None = greet_tool_index name (Some (ascii ''en''))
   \<and> greet_tool_part0 name None = greet_tool_part0 name (Some (ascii ''en''))
   \<and> (name = name' \<and> language = language' \<longrightarrow>
        greet_index name language = greet_index name' language'
      \<and> greet_part0 name language = greet_part0 name' language')
   \<and> call_index h (Greet name language) = (greet_index name language, [])
   \<and> call_part0 h (Greet name language) = (Inr (greet_part0 name language), [])"
  by (auto simp: greet_tool_index_def greet_tool_part0_def greet_schema_def)

theorem greet_pure_witness:
  "ascii ''ko'' \<in> {ascii ''ko'', ascii ''en''}
   \<and> greet_tool_index (ascii ''Tom'') (Some (ascii ''ko'')) = Inr (greet_index (ascii ''Tom'') (ascii ''ko''))
   \<and> greet_tool_part0 (ascii ''Tom'') None = greet_tool_part0 (ascii ''Tom'') (Some (ascii ''en''))
   \<and> greet_tool_index (ascii ''Tom'') None
       = Inr \<lparr>content = [Text (ascii ''Hey there, Tom! '' @ [0xD83D, 0xDC4B] @ ascii '' Nice to meet you!'')],
              structuredContent = None, isError = False\<rparr>"
  using greet_pure [of "ascii ''ko''" "ascii ''Tom''" "ascii ''Tom''" "ascii ''ko''" int_host]
  by (simp add: greet_tool_index_def greet_schema_def greet_index_def greeting_def
      text_result_def ascii_def)

section \<open>geocode: no matches\<close>

text \<open>
  C4. For every address, when the geocoding upstream answers with a success status and a
  body that is an empty array or no array at all, both geocode handlers return a result
  without the error flag (the other file's handler does not throw) whose text says that
  nothing was found for the address, which it quotes.
\<close>

theorem geocode_no_matches:
  assumes "fetch h (geocode_request h address limit country) = Inr response"
    and "ok response"
    and "json_body response = Inr data"
    and "case data of JArr results \<Rightarrow> results = [] | _ \<Rightarrow> True"
  shows "fst (geocode_index h address limit country)
           = \<lparr>content = [Text ([0xC8FC, 0xC18C, 0x20, 0x22] @ address @ [0x22, 0xC5D0,
             0x20, 0xB300, 0xD55C, 0x20, 0xAC80, 0xC0C9, 0x20, 0xACB0, 0xACFC, 0xAC00, 0x20,
             0xC5C6, 0xC2B5, 0xB2C8, 0xB2E4, 0x2E])],
              structuredContent = None, isError = False\<rparr>
       \<and> fst (geocode_part0 h address limit country)
           = Inr \<lparr>content = [Text ([0xC8FC, 0xC18C, 0x20, 0x22] @ address @ [0x22]
                       @ country_note (ascii '' ('' @ [0xAD6D, 0xAC00] @ ascii '': '') country
                       @ [0xC5D0, 0x20, 0xB300, 0xD55C, 0x20, 0xAC80, 0xC0C9, 0x20, 0xACB0,
                         0xACFC, 0xB97C, 0x20, 0xCC3E, 0xC744, 0x20, 0xC218, 0x20, 0xC5C6, 0xC2B5,
                         0xB2C8, 0xB2E4, 0x2E])],
                  structuredContent = Some [Text ([0xC8FC, 0xC18C, 0x20, 0x22] @ address @ [0x22]
                       @ country_note (ascii '' ('' @ [0xAD6D, 0xAC00] @ ascii '': '') country
                       @ [0xC5D0, 0x20, 0xB300, 0xD55C, 0x20, 0xAC80, 0xC0C9, 0x20, 0xACB0,
                         0xACFC, 0xB97C, 0x20, 0xCC3E, 0xC744, 0x20, 0xC218, 0x20, 0xC5C6, 0xC2B5,
                         0xB2C8, 0xB2E4, 0x2E])],
                  isError = False\<rparr>"
  using assms
  by (cases data)
     (simp_all add: geocode_index_def geocode_part0_def Let_def geocode_none_index_def
        geocode_none_part0_def text_result_def mirrored_result_def)

theorem geocode_no_matches_witness:
  "fetch (answering (ok_response (JArr []))) (geocode_request (answering (ok_response (JArr [])))
      (ascii ''no-such-place-xyz123'') None None) = Inr (ok_response (JArr []))
   \<and> ok (ok_response (JArr [] :: int json))
   \<and> json_body (ok_response (JArr [] :: int json)) = Inr (JArr [])
   \<and> fst (geocode_index (answering (ok_response (JArr []))) (ascii ''no-such-place-xyz123'')
          None None)
       = \<lparr>content = [Text ([0xC8FC, 0xC18C, 0x20, 0x22] @ ascii ''no-such-place-xyz123''
                          @ [0x22, 0xC5D0, 0x20, 0xB300, 0xD55C, 0x20, 0xAC80, 0xC0C9, 0x20,
                            0xACB0, 0xACFC, 0xAC00, 0x20, 0xC5C6, 0xC2B5, 0xB2C8, 0xB2E4, 0x2E])],
          structuredContent = None, isError = False\<rparr>
   \<and> (\<exists>r. fst (geocode_part0 (answering (ok_response (JArr []))) (ascii ''no-such-place-xyz123'')
               None None) = Inr r \<and> \<not> isError r)"
proof -
  have 1: "fetch (answering (ok_response (JArr []))) (geocode_request
      (answering (ok_response (JArr []))) (ascii ''no-such-place-xyz123'') None None)
      = Inr (ok_response (JArr []))"
    by (simp add: answering_def)
  have 2: "ok (ok_response (JArr [] :: int json))"
    by (simp add: ok_response_def)
  have 3: "json_body (ok_response (JArr [] :: int json)) = Inr (JArr [])"
    by (simp add: ok_response_def)
  have 4: "case (JArr [] :: int json) of JArr results \<Rightarrow> results = [] | _ \<Rightarrow> True"
    by simp
  show ?thesis
    using 1 2 3 geocode_no_matches [OF 1 2 3 4] by simp
qed

section \<open>get-weather: the daily forecast\<close>

lemma for_loop_entries:
  "for_loop entry n i resultText
     = and_then (entries_from entry i (n - i)) (\<lambda>es. Inr (resultText @ concat es))"
proof (induction entry n i resultText rule: for_loop.induct)
  case (1 entry n i resultText)
  show ?case
  proof (cases "i < n")
    case False
    then show ?thesis by (simp add: for_loop.simps [of entry n i])
  next
    case True
    then have n: "n - i = Suc (n - Suc i)" by simp
    show ?thesis
    proof (cases "entry i")
      case (Inl e)
      with True show ?thesis by (simp add: for_loop.simps [of entry n i] n)
    next
      case (Inr s)
      with True 1 have "for_loop entry n (Suc i) (resultText @ s)
          = and_then (entries_from entry (Suc i) (n - Suc i))
              (\<lambda>es. Inr ((resultText @ s) @ concat es))"
        by simp
      with True Inr show ?thesis
        by (cases "entries_from entry (Suc i) (n - Suc i)")
           (simp_all add: for_loop.simps [of entry n i] n)
    qed
  qed
qed

lemma entries_from_Inr:
  "entries_from entry i n = Inr es \<Longrightarrow>
     length es = n \<and> (\<forall>k<n. entry (i + k) = Inr (es ! k))"
proof (induction n arbitrary: i es)
  case 0
  then show ?case by simp
next
  case (Suc n)
  from Suc.prems obtain e es' where e: "entry i = Inr e"
    and es': "entries_from entry (Suc i) n = Inr es'" and es: "es = e # es'"
    by (auto simp: and_then_def split: sum.splits)
  from Suc.IH [OF es'] have len: "length es' = n"
    and nth: "\<forall>k<n. entry (Suc i + k) = Inr (es' ! k)" by simp_all
  show ?case
  proof (intro conjI allI impI)
    show "length es = Suc n" using len es by simp
  next
    fix k assume "k < Suc n"
    show "entry (i + k) = Inr (es ! k)"
    proof (cases k)
      case 0
      with e es show ?thesis by simp
    next
      case (Suc j)
      with \<open>k < Suc n\<close> nth es show ?thesis by simp
    qed
  qed
qed

lemma and_then_InrE:
  assumes "and_then m f = Inr y"
  obtains x where "m = Inr x" and "f x = Inr y"
  using assms by (cases m) simp_all

lemma daily_entry_part0_date:
  assumes "daily_entry_part0 h daily k = Inr e"
    and "get_prop h daily (ascii ''time'') = Inr time"
  shows "\<exists>d rest. js_date_label h (js_index time k) = Inr d \<and> e = d @ [0xA] @ rest"
proof -
  from assms obtain d where d: "js_date_label h (js_index time k) = Inr d"
    unfolding daily_entry_part0_def by (auto elim!: and_then_InrE)
  from assms d show ?thesis
    unfolding daily_entry_part0_def by (auto elim!: and_then_InrE)
qed

lemma daily_entry_index_date:
  assumes "daily_entry_index h daily k = Inr e"
    and "get_prop h daily (ascii ''time'') = Inr time"
  shows "\<exists>d rest. to_str h (js_index time k) = Inr d \<and> e = d @ ascii '': '' @ rest"
  using assms unfolding daily_entry_index_def by (auto elim!: and_then_InrE)



lemma daily_section_entries:
  assumes "get_prop h data (ascii ''daily'') = Inr daily"
    and "truthy h daily"
    and "get_prop h daily (ascii ''time'') = Inr (JArr days)"
  shows "daily_part0 h forecast_days data
           = and_then (entries_from (daily_entry_part0 h daily) 0
                         (min (length days) forecast_days))
               (\<lambda>es. Inr ([0xD83D, 0xDCC5, 0x20] @ nat_str forecast_days @ [0xC77C,
                 0x20, 0xC77C, 0xBCC4, 0x20, 0xC608, 0xBCF4, 0xA]
                            @ replicate 40 0x2501 @ [0xA] @ concat es))
       \<and> daily_index h forecast_days data
           = and_then (entries_from (daily_entry_index h daily) 0
                         (min (length days) forecast_days))
               (\<lambda>es. Inr ([0xD83D, 0xDCC5, 0x20] @ nat_str forecast_days @ [0xC77C,
                 0x20, 0xC608, 0xBCF4, 0xA] @ concat es))
       \<and> (\<forall>es. entries_from (daily_entry_part0 h daily) 0 (min (length days) forecast_days)
                  = Inr es \<longrightarrow>
              length es = min (length days) forecast_days
            \<and> (\<forall>k<length es.
                  daily_entry_part0 h daily k = Inr (es ! k)
                \<and> (\<exists>d rest. js_date_label h (days ! k) = Inr d \<and> es ! k = d @ [0xA] @ rest)))
       \<and> (\<forall>es. entries_from (daily_entry_index h daily) 0 (min (length days) forecast_days)
                  = Inr es \<longrightarrow>
              length es = min (length days) forecast_days
            \<and> (\<forall>k<length es.
                  daily_entry_index h daily k = Inr (es ! k)
                \<and> (\<exists>d rest. to_str h (days ! k) = Inr d \<and> es ! k = d @ ascii '': '' @ rest)))"
proof (intro conjI allI impI)
  show "daily_part0 h forecast_days data
           = and_then (entries_from (daily_entry_part0 h daily) 0
                         (min (length days) forecast_days))
               (\<lambda>es. Inr ([0xD83D, 0xDCC5, 0x20] @ nat_str forecast_days @ [0xC77C,
                 0x20, 0xC77C, 0xBCC4, 0x20, 0xC608, 0xBCF4, 0xA]
                            @ replicate 40 0x2501 @ [0xA] @ concat es))"
    using assms
    by (simp add: daily_part0_def for_loop_entries loop_count_def rule_line_def)
next
  show "daily_index h forecast_days data
           = and_then (entries_from (daily_entry_index h daily) 0
                         (min (length days) forecast_days))
               (\<lambda>es. Inr ([0xD83D, 0xDCC5, 0x20] @ nat_str forecast_days @ [0xC77C,
                 0x20, 0xC608, 0xBCF4, 0xA] @ concat es))"
    using assms
    by (simp add: daily_index_def for_loop_entries loop_count_def)
next
  fix es
  assume es: "entries_from (daily_entry_part0 h daily) 0 (min (length days) forecast_days)
                = Inr es"
  from entries_from_Inr [OF es]
  show "length es = min (length days) forecast_days" by simp
next
  fix es k
  assume es: "entries_from (daily_entry_part0 h daily) 0 (min (length days) forecast_days)
                = Inr es"
    and k: "k < length es"
  from entries_from_Inr [OF es] k
  show "daily_entry_part0 h daily k = Inr (es ! k)" by simp
next
  fix es k
  assume es: "entries_from (daily_entry_part0 h daily) 0 (min (length days) forecast_days)
                = Inr es"
    and k: "k < length es"
  from entries_from_Inr [OF es] k
  have e: "daily_entry_part0 h daily k = Inr (es ! k)" and kd: "k < length days" by simp_all
  from daily_entry_part0_date [OF e assms(3)] kd
  show "\<exists>d rest. js_date_label h (days ! k) = Inr d \<and> es ! k = d @ [0xA] @ rest" by simp
next
  fix es
  assume es: "entries_from (daily_entry_index h daily) 0 (min (length days) forecast_days)
                = Inr es"
  from entries_from_Inr [OF es]
  show "length es = min (length days) forecast_days" by simp
next
  fix es k
  assume es: "entries_from (daily_entry_index h daily) 0 (min (length days) forecast_days)
                = Inr es"
    and k: "k < length es"
  from entries_from_Inr [OF es] k
  show "daily_entry_index h daily k = Inr (es ! k)" by simp
next
  fix es k
  assume es: "entries_from (daily_entry_index h daily) 0 (min (length days) forecast_days)
                = Inr es"
    and k: "k < length es"
  from entries_from_Inr [OF es] k
  have e: "daily_entry_index h daily k = Inr (es ! k)" and kd: "k < length days" by simp_all
  from daily_entry_index_date [OF e assms(3)] kd
  show "\<exists>d rest. to_str h (days ! k) = Inr d \<and> es ! k = d @ ascii '': '' @ rest" by simp
qed

text \<open>
  C5. For every number of requested days (so for each from 1 to 16) and every body whose
  daily times are an array of d entries, the daily-forecast section of both weather
  handlers is its heading followed by exactly min(d, requested days) entries, the k-th
  being the entry of the k-th day of the array: in the other file it opens with the date
  label of that day, in src/index.ts with the day as received. The section exists when
  every one of these entries can be written, and fails with the first that cannot; where
  the handler returns its report, the section stands in it after the current weather.
\<close>

theorem weather_daily_entries:
  assumes "get_prop h data (ascii ''daily'') = Inr daily"
    and "truthy h daily"
    and "get_prop h daily (ascii ''time'') = Inr (JArr days)"
  shows "daily_part0 h forecast_days data
           = and_then (entries_from (daily_entry_part0 h daily) 0
                         (min (length days) forecast_days))
               (\<lambda>es. Inr ([0xD83D, 0xDCC5, 0x20] @ nat_str forecast_days @ [0xC77C,
                 0x20, 0xC77C, 0xBCC4, 0x20, 0xC608, 0xBCF4, 0xA]
                            @ replicate 40 0x2501 @ [0xA] @ concat es))
       \<and> daily_index h forecast_days data
           = and_then (entries_from (daily_entry_index h daily) 0
                         (min (length days) forecast_days))
               (\<lambda>es. Inr ([0xD83D, 0xDCC5, 0x20] @ nat_str forecast_days @ [0xC77C,
                 0x20, 0xC608, 0xBCF4, 0xA] @ concat es))
       \<and> (\<forall>es. entries_from (daily_entry_part0 h daily) 0 (min (length days) forecast_days)
                  = Inr es \<longrightarrow>
              length es = min (length days) forecast_days
            \<and> (\<forall>k<length es.
                  daily_entry_part0 h daily k = Inr (es ! k)
                \<and> (\<exists>d rest. js_date_label h (days ! k) = Inr d \<and> es ! k = d @ [0xA] @ rest)))
       \<and> (\<forall>es. entries_from (daily_entry_index h daily) 0 (min (length days) forecast_days)
                  = Inr es \<longrightarrow>
              length es = min (length days) forecast_days
            \<and> (\<forall>k<length es.
                  daily_entry_index h daily k = Inr (es ! k)
                \<and> (\<exists>d rest. to_str h (days ! k) = Inr d \<and> es ! k = d @ ascii '': '' @ rest)))
       \<and> (\<forall>response current_text daily_text.
              fetch h (weather_request_index h latitude longitude requested) = Inr response
            \<and> ok response \<and> json_body response = Inr data
            \<and> forecast_days = (case requested of None \<Rightarrow> 7 | Some d \<Rightarrow> d)
            \<and> current_index h data = Inr current_text
            \<and> daily_index h forecast_days data = Inr daily_text \<longrightarrow>
              fst (get_weather_index h latitude longitude requested)
                = \<lparr>content = [Text ([0xD83D, 0xDCCD, 0x20, 0xC704, 0xCE58] @ ascii '': '' @ [0xC704, 0xB3C4, 0x20]
  @ num_str h latitude @ ascii '', '' @ [0xACBD, 0xB3C4, 0x20]
                                   @ num_str h longitude @ [0xA, 0xA]
                                   @ current_text @ daily_text)],
                   structuredContent = None, isError = False\<rparr>)
       \<and> (\<forall>response flag header_text current_text daily_text hourly_text.
              fetch h (weather_request_part0 h latitude longitude requested timezone)
                = Inr response
            \<and> ok response \<and> json_body response = Inr data
            \<and> forecast_days = (case requested of None \<Rightarrow> 7 | Some d \<Rightarrow> d)
            \<and> get_prop h data (ascii ''error'') = Inr flag \<and> \<not> truthy h flag
            \<and> header_part0 h latitude longitude data = Inr header_text
            \<and> current_part0 h data = Inr current_text
            \<and> daily_part0 h forecast_days data = Inr daily_text
            \<and> hourly_part0 h data = Inr hourly_text \<longrightarrow>
              fst (get_weather_part0 h latitude longitude requested timezone)
                = Inr \<lparr>content = [Text (header_text @ current_text @ daily_text
                                       @ hourly_text)],
                       structuredContent = Some [Text (header_text @ current_text @ daily_text
                                       @ hourly_text)],
                       isError = False\<rparr>)"
proof -
  note sections = daily_section_entries [OF assms, of forecast_days]
  have index: "fst (get_weather_index h latitude longitude requested)
                = \<lparr>content = [Text ([0xD83D, 0xDCCD, 0x20, 0xC704, 0xCE58] @ ascii '': '' @ [0xC704, 0xB3C4, 0x20]
  @ num_str h latitude @ ascii '', '' @ [0xACBD, 0xB3C4, 0x20]
                                   @ num_str h longitude @ [0xA, 0xA]
                                   @ current_text @ daily_text)],
                   structuredContent = None, isError = False\<rparr>"
    if "fetch h (weather_request_index h latitude longitude requested) = Inr response"
      and "ok response" and "json_body response = Inr data"
      and "forecast_days = (case requested of None \<Rightarrow> 7 | Some d \<Rightarrow> d)"
      and "current_index h data = Inr current_text"
      and "daily_index h forecast_days data = Inr daily_text"
    for response current_text daily_text
    using that by (simp add: get_weather_index_def Let_def text_result_def)
  have part0: "fst (get_weather_part0 h latitude longitude requested timezone)
                = Inr \<lparr>content = [Text (header_text @ current_text @ daily_text
                                       @ hourly_text)],
                       structuredContent = Some [Text (header_text @ current_text @ daily_text
                                       @ hourly_text)],
                       isError = False\<rparr>"
    if "fetch h (weather_request_part0 h latitude longitude requested timezone) = Inr response"
      and "ok response" and "json_body response = Inr data"
      and "forecast_days = (case requested of None \<Rightarrow> 7 | Some d \<Rightarrow> d)"
      and "get_prop h data (ascii ''error'') = Inr flag" and "\<not> truthy h flag"
      and "header_part0 h latitude longitude data = Inr header_text"
      and "current_part0 h data = Inr current_text"
      and "daily_part0 h forecast_days data = Inr daily_text"
      and "hourly_part0 h data = Inr hourly_text"
    for response flag header_text current_text daily_text hourly_text
    using that by (simp add: get_weather_part0_def Let_def mirrored_result_def)
  have all_index: "(\<forall>response current_text daily_text.
              fetch h (weather_request_index h latitude longitude requested) = Inr response
            \<and> ok response \<and> json_body response = Inr data
            \<and> forecast_days = (case requested of None \<Rightarrow> 7 | Some d \<Rightarrow> d)
            \<and> current_index h data = Inr current_text
            \<and> daily_index h forecast_days data = Inr daily_text \<longrightarrow>
              fst (get_weather_index h latitude longitude requested)
                = \<lparr>content = [Text ([0xD83D, 0xDCCD, 0x20, 0xC704, 0xCE58] @ ascii '': '' @ [0xC704, 0xB3C4, 0x20]
  @ num_str h latitude @ ascii '', '' @ [0xACBD, 0xB3C4, 0x20]
                                   @ num_str h longitude @ [0xA, 0xA]
                                   @ current_text @ daily_text)],
                   structuredContent = None, isError = False\<rparr>)"
    by (intro allI impI; elim conjE; rule index; assumption)
  have all_part0: "(\<forall>response flag header_text current_text daily_text hourly_text.
              fetch h (weather_request_part0 h latitude longitude requested timezone)
                = Inr response
            \<and> ok response \<and> json_body response = Inr data
            \<and> forecast_days = (case requested of None \<Rightarrow> 7 | Some d \<Rightarrow> d)
            \<and> get_prop h data (ascii ''error'') = Inr flag \<and> \<not> truthy h flag
            \<and> header_part0 h latitude longitude data = Inr header_text
            \<and> current_part0 h data = Inr current_text
            \<and> daily_part0 h forecast_days data = Inr daily_text
            \<and> hourly_part0 h data = Inr hourly_text \<longrightarrow>
              fst (get_weather_part0 h latitude longitude requested timezone)
                = Inr \<lparr>content = [Text (header_text @ current_text @ daily_text
                                       @ hourly_text)],
                       structuredContent = Some [Text (header_text @ current_text @ daily_text
                                       @ hourly_text)],
                       isError = False\<rparr>)"
    by (intro allI impI; elim conjE; rule part0; assumption)
  note s1 = sections [THEN conjunct1]
  note s2 = sections [THEN conjunct2, THEN conjunct1]
  note s3 = sections [THEN conjunct2, THEN conjunct2, THEN conjunct1]
  note s4 = sections [THEN conjunct2, THEN conjunct2, THEN conjunct2]
  show ?thesis
    by (rule conjI [OF s1 conjI [OF s2 conjI [OF s3 conjI [OF s4
          conjI [OF all_index all_part0]]]]])
qed

lemma small_numerals: "nat_str 2 = ascii ''2''" "nat_str 7 = ascii ''7''"
  by (simp_all add: nat_str.simps ascii_def)

theorem weather_daily_entries_witness:
  "get_prop (answering (ok_response three_days)) three_days (ascii ''daily'') = Inr three_days_daily
   \<and> truthy (answering (ok_response three_days)) three_days_daily
   \<and> get_prop (answering (ok_response three_days)) three_days_daily (ascii ''time'')
       = Inr (JArr [JStr (ascii ''2025-01-01''), JStr (ascii ''2025-01-02''),
                    JStr (ascii ''2025-01-03'')])
   \<and> fst (get_weather_index (answering (ok_response three_days)) 37 127 (Some 2))
       = \<lparr>content = [Text ([0xD83D, 0xDCCD, 0x20, 0xC704, 0xCE58] @ ascii '': ''
         @ [0xC704, 0xB3C4, 0x20] @ ascii ''37'' @ ascii '', '' @ [0xACBD, 0xB3C4, 0x20]
         @ ascii ''127''
              @ [0xA, 0xA] @ [0xD83D, 0xDCC5, 0x20] @ ascii ''2'' @ [0xC77C, 0x20, 0xC608,
                0xBCF4, 0xA]
              @ ascii ''2025-01-01: 1'' @ [0xB0] @ ascii ''C ~ '' @ ascii ''5'' @ [0xB0, 0x43, 0xA]
              @ ascii ''2025-01-02: 2'' @ [0xB0] @ ascii ''C ~ '' @ ascii ''6'' @ [0xB0, 0x43,
                0xA])],
          structuredContent = None, isError = False\<rparr>
   \<and> (\<exists>es. daily_part0 (answering (ok_response three_days)) 2 three_days
               = Inr ([0xD83D, 0xDCC5, 0x20] @ ascii ''2'' @ [0xC77C, 0x20, 0xC77C, 0xBCC4,
                 0x20, 0xC608, 0xBCF4, 0xA] @ replicate 40 0x2501 @ [0xA]
                      @ concat es)
            \<and> length es = 2
            \<and> content (projr (fst (get_weather_part0 (answering (ok_response three_days))
                                      37 127 (Some 2) None)))
                = [Text ([0xD83D, 0xDCCD, 0x20, 0xC704, 0xCE58] @ ascii '': '' @ [0xC704,
                  0xB3C4, 0x20] @ ascii ''37'' @ ascii '', '' @ [0xACBD, 0xB3C4, 0x20]
                  @ ascii ''127''
                         @ [0xA, 0xA] @ [0xD83D, 0xDCC5, 0x20] @ ascii ''2'' @ [0xC77C, 0x20,
                           0xC77C, 0xBCC4, 0x20, 0xC608, 0xBCF4, 0xA]
                         @ replicate 40 0x2501 @ [0xA] @ concat es)])
   \<and> (\<exists>es. daily_part0 (answering (ok_response three_days)) 7 three_days
               = Inr ([0xD83D, 0xDCC5, 0x20] @ ascii ''7'' @ [0xC77C, 0x20, 0xC77C, 0xBCC4,
                 0x20, 0xC608, 0xBCF4, 0xA] @ replicate 40 0x2501 @ [0xA]
                      @ concat es)
            \<and> length es = 3)"
proof -
  let ?H = "answering (ok_response three_days)"
  have resp: "ok (ok_response three_days)" "json_body (ok_response three_days) = Inr three_days"
    by (simp_all add: ok_response_def)
  have 1: "get_prop ?H three_days (ascii ''daily'') = Inr three_days_daily"
    by (simp add: three_days_def ascii_def)
  have 2: "truthy ?H three_days_daily"
    by (simp add: three_days_daily_def)
  have 3: "get_prop ?H three_days_daily (ascii ''time'')
       = Inr (JArr [JStr (ascii ''2025-01-01''), JStr (ascii ''2025-01-02''),
                    JStr (ascii ''2025-01-03'')])"
    by (simp add: three_days_daily_def ascii_def)
  note w = weather_daily_entries [OF 1 2 3]
  have two: "min (length [JStr (ascii ''2025-01-01''), JStr (ascii ''2025-01-02''),
                    JStr (ascii ''2025-01-03'') :: int json]) 2 = Suc (Suc 0)"
    and three: "min (length [JStr (ascii ''2025-01-01''), JStr (ascii ''2025-01-02''),
                    JStr (ascii ''2025-01-03'') :: int json]) 7 = Suc (Suc (Suc 0))"
    by simp_all
  have entry_part0:
    "\<exists>e. daily_entry_part0 ?H three_days_daily 0 = Inr e"
    "\<exists>e. daily_entry_part0 ?H three_days_daily (Suc 0) = Inr e"
    "\<exists>e. daily_entry_part0 ?H three_days_daily (Suc (Suc 0)) = Inr e"
    by (simp_all add: daily_entry_part0_def three_days_daily_def js_date_label_def opt_index_def
        describe_code_def when_defined_def answering_sel int_host_sel ascii_def)
  have entry_index: "daily_entry_index ?H three_days_daily 0
        = Inr (ascii ''2025-01-01: 1'' @ [0xB0] @ ascii ''C ~ '' @ ascii ''5'' @ [0xB0, 0x43, 0xA])"
    "daily_entry_index ?H three_days_daily (Suc 0)
        = Inr (ascii ''2025-01-02: 2'' @ [0xB0] @ ascii ''C ~ '' @ ascii ''6'' @ [0xB0, 0x43, 0xA])"
    by (simp_all add: daily_entry_index_def three_days_daily_def opt_index_def answering_sel
        int_str_def nat_str.simps ascii_def)
  have a: "daily_index ?H 2 three_days
       = Inr ([0xD83D, 0xDCC5, 0x20] @ ascii ''2'' @ [0xC77C, 0x20, 0xC608, 0xBCF4, 0xA]
              @ ascii ''2025-01-01: 1'' @ [0xB0] @ ascii ''C ~ '' @ ascii ''5'' @ [0xB0, 0x43, 0xA]
              @ ascii ''2025-01-02: 2'' @ [0xB0] @ ascii ''C ~ '' @ ascii ''6'' @ [0xB0, 0x43,
                0xA])"
    using w [of 2, THEN conjunct2, THEN conjunct1, unfolded two small_numerals]
    by (simp add: entry_index)
  have current: "current_index ?H three_days = Inr []" "current_part0 ?H three_days = Inr []"
    by (simp_all add: current_index_def current_part0_def three_days_def ascii_def)
  have numerals: "int_str 37 = ascii ''37''" "int_str 127 = ascii ''127''"
    by (simp_all add: int_str_def nat_str.simps ascii_def)
  have a': "fst (get_weather_index ?H 37 127 (Some 2))
       = \<lparr>content = [Text ([0xD83D, 0xDCCD, 0x20, 0xC704, 0xCE58] @ ascii '': ''
         @ [0xC704, 0xB3C4, 0x20] @ ascii ''37'' @ ascii '', '' @ [0xACBD, 0xB3C4, 0x20]
         @ ascii ''127''
              @ [0xA, 0xA] @ [0xD83D, 0xDCC5, 0x20] @ ascii ''2'' @ [0xC77C, 0x20, 0xC608,
                0xBCF4, 0xA]
              @ ascii ''2025-01-01: 1'' @ [0xB0] @ ascii ''C ~ '' @ ascii ''5'' @ [0xB0, 0x43, 0xA]
              @ ascii ''2025-01-02: 2'' @ [0xB0] @ ascii ''C ~ '' @ ascii ''6'' @ [0xB0, 0x43,
                0xA])],
          structuredContent = None, isError = False\<rparr>"
    using w [of 2 37 127 "Some 2", THEN conjunct2, THEN conjunct2, THEN conjunct2,
             THEN conjunct2, THEN conjunct1, rule_format,
             of "ok_response three_days" "[]"
                "[0xD83D, 0xDCC5, 0x20] @ ascii ''2'' @ [0xC77C, 0x20, 0xC608, 0xBCF4, 0xA]
              @ ascii ''2025-01-01: 1'' @ [0xB0] @ ascii ''C ~ '' @ ascii ''5'' @ [0xB0, 0x43, 0xA]
              @ ascii ''2025-01-02: 2'' @ [0xB0] @ ascii ''C ~ '' @ ascii ''6'' @ [0xB0, 0x43,
                0xA]"]
    by (simp add: answering_sel resp current a numerals)
  obtain es2 where es2: "entries_from (daily_entry_part0 ?H three_days_daily) 0
      (Suc (Suc 0)) = Inr es2"
    using entry_part0 by auto
  obtain es3 where es3: "entries_from (daily_entry_part0 ?H three_days_daily) 0
      (Suc (Suc (Suc 0))) = Inr es3"
    using entry_part0 by auto
  have b: "length es2 = 2"
    using w [of 2, THEN conjunct2, THEN conjunct2, THEN conjunct1, unfolded two,
             rule_format, OF es2, THEN conjunct1]
    by simp
  have b': "daily_part0 ?H 2 three_days
               = Inr ([0xD83D, 0xDCC5, 0x20] @ ascii ''2'' @ [0xC77C, 0x20, 0xC77C, 0xBCC4,
                 0x20, 0xC608, 0xBCF4, 0xA] @ replicate 40 0x2501 @ [0xA]
                      @ concat es2)"
    using w [of 2, THEN conjunct1, unfolded two small_numerals] es2 by simp
  have header: "header_part0 ?H 37 127 three_days
      = Inr ([0xD83D, 0xDCCD, 0x20, 0xC704, 0xCE58] @ ascii '': '' @ [0xC704, 0xB3C4, 0x20]
        @ ascii ''37'' @ ascii '', '' @ [0xACBD, 0xB3C4, 0x20] @ ascii ''127'' @ [0xA, 0xA])"
    by (simp add: header_part0_def when_defined_def three_days_def answering_sel numerals)
       (simp add: ascii_def)
  have hourly: "hourly_part0 ?H three_days = Inr []"
    by (simp add: hourly_part0_def three_days_def ascii_def)
  have flag: "get_prop ?H three_days (ascii ''error'') = Inr JUndefined"
    by (simp add: three_days_def ascii_def)
  have b'': "content (projr (fst (get_weather_part0 ?H 37 127 (Some 2) None)))
                = [Text ([0xD83D, 0xDCCD, 0x20, 0xC704, 0xCE58] @ ascii '': '' @ [0xC704,
                  0xB3C4, 0x20] @ ascii ''37'' @ ascii '', '' @ [0xACBD, 0xB3C4, 0x20]
                  @ ascii ''127''
                         @ [0xA, 0xA] @ [0xD83D, 0xDCC5, 0x20] @ ascii ''2'' @ [0xC77C, 0x20,
                           0xC77C, 0xBCC4, 0x20, 0xC608, 0xBCF4, 0xA]
                         @ replicate 40 0x2501 @ [0xA] @ concat es2)]"
    using w [of 2 37 127 "Some 2" None, THEN conjunct2, THEN conjunct2, THEN conjunct2,
             THEN conjunct2, THEN conjunct2, rule_format,
             of "ok_response three_days" JUndefined
                "[0xD83D, 0xDCCD, 0x20, 0xC704, 0xCE58] @ ascii '': '' @ [0xC704, 0xB3C4, 0x20]
                  @ ascii ''37'' @ ascii '', '' @ [0xACBD, 0xB3C4, 0x20] @ ascii ''127'' @ [0xA,
                  0xA]"
                "[]"
                "[0xD83D, 0xDCC5, 0x20] @ ascii ''2'' @ [0xC77C, 0x20, 0xC77C, 0xBCC4, 0x20,
                  0xC608, 0xBCF4, 0xA] @ replicate 40 0x2501 @ [0xA]
                      @ concat es2"
                "[]"]
    by (simp add: answering_sel resp current header hourly flag b')
  have c: "length es3 = 3"
    using w [of 7, THEN conjunct2, THEN conjunct2, THEN conjunct1, unfolded three,
             rule_format, OF es3, THEN conjunct1]
    by simp
  have c': "daily_part0 ?H 7 three_days
               = Inr ([0xD83D, 0xDCC5, 0x20] @ ascii ''7'' @ [0xC77C, 0x20, 0xC77C, 0xBCC4,
                 0x20, 0xC608, 0xBCF4, 0xA] @ replicate 40 0x2501 @ [0xA]
                      @ concat es3)"
    using w [of 7, THEN conjunct1, unfolded three small_numerals] es3 by simp
  from b b' b'' have B: "\<exists>es. daily_part0 ?H 2 three_days
               = Inr ([0xD83D, 0xDCC5, 0x20] @ ascii ''2'' @ [0xC77C, 0x20, 0xC77C, 0xBCC4,
                 0x20, 0xC608, 0xBCF4, 0xA] @ replicate 40 0x2501 @ [0xA]
                      @ concat es)
            \<and> length es = 2
            \<and> content (projr (fst (get_weather_part0 ?H 37 127 (Some 2) None)))
                = [Text ([0xD83D, 0xDCCD, 0x20, 0xC704, 0xCE58] @ ascii '': '' @ [0xC704,
                  0xB3C4, 0x20] @ ascii ''37'' @ ascii '', '' @ [0xACBD, 0xB3C4, 0x20]
                  @ ascii ''127''
                         @ [0xA, 0xA] @ [0xD83D, 0xDCC5, 0x20] @ ascii ''2'' @ [0xC77C, 0x20,
                           0xC77C, 0xBCC4, 0x20, 0xC608, 0xBCF4, 0xA]
                         @ replicate 40 0x2501 @ [0xA] @ concat es)]"
    by (intro exI [of _ es2] conjI)
  from c c' have C: "\<exists>es. daily_part0 ?H 7 three_days
               = Inr ([0xD83D, 0xDCC5, 0x20] @ ascii ''7'' @ [0xC77C, 0x20, 0xC77C, 0xBCC4,
                 0x20, 0xC608, 0xBCF4, 0xA] @ replicate 40 0x2501 @ [0xA]
                      @ concat es)
            \<and> length es = 3"
    by (intro exI [of _ es3] conjI)
  show ?thesis
    by (rule conjI [OF 1 conjI [OF 2 conjI [OF 3 conjI [OF a' conjI [OF B C]]]]])
qed

section \<open>geocode: the report\<close>

lemma map_from_numbered:
  "(\<And>k x. x \<in> set xs \<Longrightarrow> f k x = Inr (g k x)) \<Longrightarrow>
   map_from f i xs = Inr (numbered g i xs)"
  by (induction xs arbitrary: i) simp_all


lemma optional_field_other:
  "key \<noteq> key' \<Longrightarrow> map_of (optional_field key v @ rest) key' = map_of rest key'"
  by (cases v) (simp_all add: optional_field_def)

lemma optional_field_same:
  "map_of (optional_field key v @ rest) key
     = (case v of None \<Rightarrow> map_of rest key | Some s \<Rightarrow> Some (JStr s))"
  by (cases v) (simp_all add: optional_field_def)

lemma optional_field_last_other:
  "key \<noteq> key' \<Longrightarrow> map_of (optional_field key v) key' = None"
  by (cases v) (simp_all add: optional_field_def)

lemma optional_field_last_same:
  "map_of (optional_field key v) key = (case v of None \<Rightarrow> None | Some s \<Rightarrow> Some (JStr s))"
  by (cases v) (simp_all add: optional_field_def)












end
